theory Spec2Isabelle
  imports Complex_Main
begin

section \<open>Data model\<close>

text \<open>
  The agent passes plans, steps and step results around as Python dictionaries: the
  plan is whatever \<^verbatim>\<open>json.loads\<close> decoded (or the literal of
  \<^verbatim>\<open>create_fallback_plan\<close>). They are modelled as JSON values. An object is an
  association list in insertion order, read with \<open>map_of\<close>. A float is held as the
  rational its decimal literal denotes; the code only stores and returns floats, it never
  computes with them.

  Text is \<open>string\<close>, one \<open>char\<close> per code point below 256.
\<close>

datatype json =
    JNull
  | JBool bool
  | JInt int
  | JFloat rat
  | JStr string
  | JArr "json list"
  | JObj "(string \<times> json) list"

text \<open>
  A loaded model is a dictionary holding opaque handles and a \<^verbatim>\<open>"type"\<close> entry; only
  the type tag is kept. \<^verbatim>\<open>load_model\<close> stores a model only when it is truthy, so an
  entry of \<^verbatim>\<open>loaded_models\<close> is never \<^verbatim>\<open>None\<close> or empty.
\<close>

datatype model = Model (mtype: string)

type_synonym loaded_models = "(string \<times> model) list"

section \<open>Model loader: unloading (Core/model\_loader.py)\<close>

text \<open>\<^verbatim>\<open>del d[k]\<close> on an insertion-ordered dictionary.\<close>

definition del_key :: "string \<Rightarrow> (string \<times> 'v) list \<Rightarrow> (string \<times> 'v) list" where
  "del_key k d = filter (\<lambda>p. fst p \<noteq> k) d"

text \<open>
  \<^verbatim>\<open>
  def unload_unused_models(self, keep_models: Optional[List[str]] = None) -> None:
      keep_models = keep_models or ["deepseek-r1"]  # Always keep main brain
      to_unload = []
      for model_name in self.loaded_models:
          if model_name not in keep_models:
              to_unload.append(model_name)
      for model_name in to_unload:
          del self.loaded_models[model_name]
  \<close>
  \<^verbatim>\<open>keep_models or [...]\<close> takes the default when the argument is \<^verbatim>\<open>None\<close> or the
  empty list. The function returns the new \<^verbatim>\<open>loaded_models\<close>.
\<close>

definition keep_or_default :: "string list option \<Rightarrow> string list" where
  "keep_or_default keep_models =
     (case keep_models of
        None \<Rightarrow> [''deepseek-r1'']
      | Some ks \<Rightarrow> if ks = [] then [''deepseek-r1''] else ks)"

definition unload_unused_models :: "string list option \<Rightarrow> loaded_models \<Rightarrow> loaded_models" where
  "unload_unused_models keep_models loaded =
     (let keep = keep_or_default keep_models;
          to_unload = filter (\<lambda>model_name. model_name \<notin> set keep) (map fst loaded)
      in fold del_key to_unload loaded)"

section \<open>Plan parser (Core/agent.py)\<close>

subsection \<open>The regular expression\<close>

text \<open>
  \<^verbatim>\<open>re.search(r'\{.*\}', response, re.DOTALL)\<close>: the leftmost match starts at the first
  opening brace; with \<^verbatim>\<open>DOTALL\<close> the greedy \<^verbatim>\<open>.*\<close> runs over every character,
  newlines included, and backtracks to the last closing brace. When no closing brace
  follows the first opening brace, none follows a later one either, and there is no
  match. \<open>re_search_braces\<close> is \<^verbatim>\<open>json_match.group()\<close>, or \<open>None\<close> for no match.
\<close>

definition re_search_braces :: "string \<Rightarrow> string option" where
  "re_search_braces response =
     (case dropWhile (\<lambda>c. c \<noteq> CHR ''{'') response of
        [] \<Rightarrow> None
      | open_brace # rest \<Rightarrow>
          (case rev (dropWhile (\<lambda>c. c \<noteq> CHR ''}'') (rev rest)) of
             [] \<Rightarrow> None
           | body \<Rightarrow> Some (open_brace # body)))"

subsection \<open>The fallback plan\<close>

text \<open>\<^verbatim>\<open>create_fallback_plan(user_input)\<close> returns the same literal for every argument.\<close>

definition create_fallback_plan :: "string \<Rightarrow> json" where
  "create_fallback_plan user_input =
     JObj [
       (''intent'', JStr ''Respond to user request''),
       (''complexity'', JStr ''simple''),
       (''primary_capability'', JStr ''text''),
       (''additional_capabilities'', JArr []),
       (''tools_needed'', JArr []),
       (''execution_steps'', JArr [
          JObj [
            (''step'', JInt 1),
            (''action'', JStr ''Generate helpful response''),
            (''capability'', JStr ''text''),
            (''depends_on'', JArr [])]]),
       (''memory_operations'', JObj [
          (''retrieve'', JArr []),
          (''store'', JStr ''User interaction'')]),
       (''admin_access_needed'', JBool False),
       (''estimated_time'', JStr ''quick''),
       (''confidence'', JFloat (5 / 10))]"

subsection \<open>Parsing the plan\<close>

text \<open>
  \<^verbatim>\<open>
  def parse_execution_plan(self, response: str) -> Dict[str, Any]:
      try:
          json_match = re.search(r'\{.*\}', response, re.DOTALL)
          if json_match:
              return json.loads(json_match.group())
          else:
              return self.create_fallback_plan("")
      except Exception as e:
          return self.create_fallback_plan("")
  \<close>
  \<^verbatim>\<open>json.loads\<close> is the standard library's; it is the parameter \<open>loads\<close>, with \<open>None\<close>
  where it raises. The matched text is never empty, so the match object is truthy.
\<close>

definition parse_execution_plan :: "(string \<Rightarrow> json option) \<Rightarrow> string \<Rightarrow> json" where
  "parse_execution_plan loads response =
     (case re_search_braces response of
        Some json_match \<Rightarrow>
          (case loads json_match of
             Some plan \<Rightarrow> plan
           | None \<Rightarrow> create_fallback_plan [])
      | None \<Rightarrow> create_fallback_plan [])"

subsection \<open>A decoder for concrete texts\<close>

text \<open>
  \<open>json_loads\<close> is \<^verbatim>\<open>json.loads\<close> on JSON texts made of objects, arrays, strings (with the
  one-character escapes), integers, decimal fractions, \<^verbatim>\<open>true\<close>, \<^verbatim>\<open>false\<close>, \<^verbatim>\<open>null\<close> and
  whitespace; a text that is not JSON gives \<open>None\<close>, as \<^verbatim>\<open>json.loads\<close> raises. It does not
  read \<^verbatim>\<open>\u\<close> escapes, exponents or \<^verbatim>\<open>NaN\<close>/\<^verbatim>\<open>Infinity\<close> and answers \<open>None\<close> on them too.
  It instantiates \<open>loads\<close> at concrete texts only; every statement over all texts is
  about an arbitrary \<open>loads\<close>.
\<close>

datatype token = TLBrace | TRBrace | TLBracket | TRBracket | TColon | TComma | TValue json

datatype mode =
    Idle
  | InString string
  | InEscape string
  | Sign
  | IntPart bool string
  | FracStart bool string
  | FracPart bool string string
  | Literal string json

definition is_digit :: "char \<Rightarrow> bool" where
  "is_digit c = (c \<in> set ''0123456789'')"

definition is_space :: "char \<Rightarrow> bool" where
  "is_space c = (c = CHR '' '' \<or> c = CHR 0x09 \<or> c = CHR 0x0A \<or> c = CHR 0x0D)"

text \<open>The value of a digit: its place among the ten digits.\<close>

definition digit_val :: "char \<Rightarrow> nat" where
  "digit_val c = length (takeWhile (\<lambda>d. d \<noteq> c) ''0123456789'')"

text \<open>The number a digit string denotes, the string given last digit first.\<close>

fun rev_digits_val :: "string \<Rightarrow> nat" where
  "rev_digits_val [] = 0"
| "rev_digits_val (c # cs) = digit_val c + 10 * rev_digits_val cs"

definition int_token :: "bool \<Rightarrow> string \<Rightarrow> token" where
  "int_token neg ds =
     TValue (JInt (if neg then - int (rev_digits_val ds) else int (rev_digits_val ds)))"

definition frac_token :: "bool \<Rightarrow> string \<Rightarrow> string \<Rightarrow> token" where
  "frac_token neg ds fs =
     (let q = of_nat (rev_digits_val ds) + of_nat (rev_digits_val fs) / 10 ^ length fs
      in TValue (JFloat (if neg then - q else q)))"

definition unescape :: "char \<Rightarrow> char option" where
  "unescape c =
     (if c = CHR 0x22 then Some (CHR 0x22)
      else if c = CHR 0x5C then Some (CHR 0x5C)
      else if c = CHR ''/'' then Some (CHR ''/'')
      else if c = CHR ''b'' then Some (CHR 0x08)
      else if c = CHR ''f'' then Some (CHR 0x0C)
      else if c = CHR ''n'' then Some (CHR 0x0A)
      else if c = CHR ''r'' then Some (CHR 0x0D)
      else if c = CHR ''t'' then Some (CHR 0x09)
      else None)"

text \<open>What a character does between tokens: the tokens it completes and the mode it opens.\<close>

definition idle_char :: "char \<Rightarrow> (token list \<times> mode) option" where
  "idle_char c =
     (if is_space c then Some ([], Idle)
      else if c = CHR ''{'' then Some ([TLBrace], Idle)
      else if c = CHR ''}'' then Some ([TRBrace], Idle)
      else if c = CHR ''['' then Some ([TLBracket], Idle)
      else if c = CHR '']'' then Some ([TRBracket], Idle)
      else if c = CHR '':'' then Some ([TColon], Idle)
      else if c = CHR '','' then Some ([TComma], Idle)
      else if c = CHR 0x22 then Some ([], InString [])
      else if c = CHR ''-'' then Some ([], Sign)
      else if is_digit c then Some ([], IntPart False [c])
      else if c = CHR ''t'' then Some ([], Literal ''rue'' (JBool True))
      else if c = CHR ''f'' then Some ([], Literal ''alse'' (JBool False))
      else if c = CHR ''n'' then Some ([], Literal ''ull'' JNull)
      else None)"

fun tokenize :: "mode \<Rightarrow> string \<Rightarrow> token list option" where
  "tokenize Idle [] = Some []"
| "tokenize (IntPart neg ds) [] = Some [int_token neg ds]"
| "tokenize (FracPart neg ds fs) [] = Some [frac_token neg ds fs]"
| "tokenize m [] = None"
| "tokenize Idle (c # cs) =
     (case idle_char c of
        None \<Rightarrow> None
      | Some (ts, m) \<Rightarrow> map_option ((@) ts) (tokenize m cs))"
| "tokenize (InString acc) (c # cs) =
     (if c = CHR 0x22 then map_option ((#) (TValue (JStr (rev acc)))) (tokenize Idle cs)
      else if c = CHR 0x5C then tokenize (InEscape acc) cs
      else if (of_char c :: nat) < 32 then None
      else tokenize (InString (c # acc)) cs)"
| "tokenize (InEscape acc) (c # cs) =
     (case unescape c of
        None \<Rightarrow> None
      | Some d \<Rightarrow> tokenize (InString (d # acc)) cs)"
| "tokenize Sign (c # cs) =
     (if is_digit c then tokenize (IntPart True [c]) cs else None)"
| "tokenize (IntPart neg ds) (c # cs) =
     (if is_digit c then (if ds = ''0'' then None else tokenize (IntPart neg (c # ds)) cs)
      else if c = CHR ''.'' then tokenize (FracStart neg ds) cs
      else (case idle_char c of
              None \<Rightarrow> None
            | Some (ts, m) \<Rightarrow> map_option ((@) (int_token neg ds # ts)) (tokenize m cs)))"
| "tokenize (FracStart neg ds) (c # cs) =
     (if is_digit c then tokenize (FracPart neg ds [c]) cs else None)"
| "tokenize (FracPart neg ds fs) (c # cs) =
     (if is_digit c then tokenize (FracPart neg ds (c # fs)) cs
      else (case idle_char c of
              None \<Rightarrow> None
            | Some (ts, m) \<Rightarrow> map_option ((@) (frac_token neg ds fs # ts)) (tokenize m cs)))"
| "tokenize (Literal expected v) (c # cs) =
     (case expected of
        [] \<Rightarrow> None
      | e # es \<Rightarrow>
          if c \<noteq> e then None
          else if es = [] then map_option ((#) (TValue v)) (tokenize Idle cs)
          else tokenize (Literal es v) cs)"

text \<open>
  \<^verbatim>\<open>d[k] = v\<close> while an object is built: a repeated key keeps its place and takes the
  later value.
\<close>

definition dict_set :: "string \<Rightarrow> 'v \<Rightarrow> (string \<times> 'v) list \<Rightarrow> (string \<times> 'v) list" where
  "dict_set k v d =
     (if k \<in> set (map fst d) then map (\<lambda>p. if fst p = k then (k, v) else p) d
      else d @ [(k, v)])"

datatype frame =
    FArr "json list"
  | FObj "(string \<times> json) list"
  | FMember "(string \<times> json) list" string

datatype expect = EValue | EValueOrClose | EKeyOrClose | EKey | EColon | EAfter | EDone json

text \<open>A value is complete: it is the result, an array's next element or a member's value.\<close>

fun complete :: "json \<Rightarrow> frame list \<Rightarrow> (frame list \<times> expect) option" where
  "complete v [] = Some ([], EDone v)"
| "complete v (FArr xs # st) = Some (FArr (v # xs) # st, EAfter)"
| "complete v (FMember ms k # st) = Some (FObj (dict_set k v ms) # st, EAfter)"
| "complete v (FObj ms # st) = None"

fun parse_token :: "frame list \<Rightarrow> expect \<Rightarrow> token \<Rightarrow> (frame list \<times> expect) option" where
  "parse_token st e TLBracket =
     (if e = EValue \<or> e = EValueOrClose then Some (FArr [] # st, EValueOrClose) else None)"
| "parse_token st e TLBrace =
     (if e = EValue \<or> e = EValueOrClose then Some (FObj [] # st, EKeyOrClose) else None)"
| "parse_token st e TRBracket =
     (case st of
        FArr xs # st' \<Rightarrow>
          if e = EValueOrClose \<or> e = EAfter then complete (JArr (rev xs)) st' else None
      | _ \<Rightarrow> None)"
| "parse_token st e TRBrace =
     (case st of
        FObj ms # st' \<Rightarrow>
          if e = EKeyOrClose \<or> e = EAfter then complete (JObj ms) st' else None
      | _ \<Rightarrow> None)"
| "parse_token st e TColon = (if e = EColon then Some (st, EValue) else None)"
| "parse_token st e TComma =
     (if e = EAfter then
        (case st of
           FArr xs # st' \<Rightarrow> Some (st, EValue)
         | FObj ms # st' \<Rightarrow> Some (st, EKey)
         | _ \<Rightarrow> None)
      else None)"
| "parse_token st e (TValue v) =
     (if e = EValue \<or> e = EValueOrClose then complete v st
      else if e = EKeyOrClose \<or> e = EKey then
        (case (v, st) of
           (JStr k, FObj ms # st') \<Rightarrow> Some (FMember ms k # st', EColon)
         | _ \<Rightarrow> None)
      else None)"

fun parse_tokens :: "frame list \<Rightarrow> expect \<Rightarrow> token list \<Rightarrow> json option" where
  "parse_tokens st e [] = (case (st, e) of ([], EDone v) \<Rightarrow> Some v | _ \<Rightarrow> None)"
| "parse_tokens st e (t # ts) =
     (case parse_token st e t of
        None \<Rightarrow> None
      | Some (st', e') \<Rightarrow> parse_tokens st' e' ts)"

definition json_loads :: "string \<Rightarrow> json option" where
  "json_loads s =
     (case tokenize Idle s of
        None \<Rightarrow> None
      | Some ts \<Rightarrow> parse_tokens [] EValue ts)"

subsection \<open>What the specification asks of a plan\<close>

text \<open>Reading an entry of an object; anything but an object has none.\<close>

definition lookup :: "json \<Rightarrow> string \<Rightarrow> json option" where
  "lookup j k = (case j of JObj d \<Rightarrow> map_of d k | _ \<Rightarrow> None)"

text \<open>
  The specification's invariant of a Plan, in the code's keys (\<^verbatim>\<open>execution_steps\<close>,
  \<^verbatim>\<open>step\<close>, \<^verbatim>\<open>depends_on\<close>): the dependency graph over the step ids has no cycle, and
  every \<^verbatim>\<open>depends_on\<close> entry is the id of a step of the plan. The code has no such
  check; these predicates only state the specification's words.
\<close>

definition plan_steps :: "json \<Rightarrow> json list" where
  "plan_steps plan =
     (case lookup plan ''execution_steps'' of Some (JArr steps) \<Rightarrow> steps | _ \<Rightarrow> [])"

definition step_deps :: "json \<Rightarrow> json list" where
  "step_deps step = (case lookup step ''depends_on'' of Some (JArr deps) \<Rightarrow> deps | _ \<Rightarrow> [])"

definition dep_graph :: "json \<Rightarrow> (json \<times> json) set" where
  "dep_graph plan =
     set (concat (map (\<lambda>step. case lookup step ''step'' of
                                  None \<Rightarrow> []
                                | Some i \<Rightarrow> map (Pair i) (step_deps step))
                      (plan_steps plan)))"

definition deps_acyclic :: "json \<Rightarrow> bool" where
  "deps_acyclic plan = acyclic (dep_graph plan)"

definition deps_declared :: "json \<Rightarrow> bool" where
  "deps_declared plan =
     list_all (\<lambda>step. list_all (\<lambda>d. Some d \<in> set (map (\<lambda>s. lookup s ''step'') (plan_steps plan)))
                                (step_deps step))
              (plan_steps plan)"

text \<open>
  The specification's "first balanced brace-delimited payload": from the first opening
  brace whose group closes, the text up to the brace that closes it. \<open>close_group d cs\<close>
  is the part of \<open>cs\<close> up to the brace that closes \<open>d\<close> open groups.
\<close>

fun close_group :: "nat \<Rightarrow> string \<Rightarrow> string option" where
  "close_group d [] = None"
| "close_group d (c # cs) =
     (if c = CHR ''{'' then map_option ((#) c) (close_group (Suc d) cs)
      else if c = CHR ''}'' then
        (if d \<le> 1 then Some [c] else map_option ((#) c) (close_group (d - 1) cs))
      else map_option ((#) c) (close_group d cs))"

fun first_balanced :: "string \<Rightarrow> string option" where
  "first_balanced [] = None"
| "first_balanced (c # cs) =
     (if c = CHR ''{'' then
        (case close_group 1 cs of
           Some body \<Rightarrow> Some (c # body)
         | None \<Rightarrow> first_balanced cs)
      else first_balanced cs)"

section \<open>Keyword classifier (Core/model\_loader.py)\<close>

text \<open>
  \<^verbatim>\<open>str.lower()\<close> on code points below 256: the letters A to Z and the accented capitals
  of Latin-1 go to their small letters, every other character stays.
\<close>

definition upper_letters :: string where
  "upper_letters =
     ''ABCDEFGHIJKLMNOPQRSTUVWXYZ'' @
       [
        CHR 0xC0, CHR 0xC1, CHR 0xC2, CHR 0xC3, CHR 0xC4, CHR 0xC5, CHR 0xC6, CHR 0xC7,
        CHR 0xC8, CHR 0xC9, CHR 0xCA, CHR 0xCB, CHR 0xCC, CHR 0xCD, CHR 0xCE, CHR 0xCF,
        CHR 0xD0, CHR 0xD1, CHR 0xD2, CHR 0xD3, CHR 0xD4, CHR 0xD5, CHR 0xD6, CHR 0xD8,
        CHR 0xD9, CHR 0xDA, CHR 0xDB, CHR 0xDC, CHR 0xDD, CHR 0xDE]"

definition lower_letters :: string where
  "lower_letters =
     ''abcdefghijklmnopqrstuvwxyz'' @
       [
        CHR 0xE0, CHR 0xE1, CHR 0xE2, CHR 0xE3, CHR 0xE4, CHR 0xE5, CHR 0xE6, CHR 0xE7,
        CHR 0xE8, CHR 0xE9, CHR 0xEA, CHR 0xEB, CHR 0xEC, CHR 0xED, CHR 0xEE, CHR 0xEF,
        CHR 0xF0, CHR 0xF1, CHR 0xF2, CHR 0xF3, CHR 0xF4, CHR 0xF5, CHR 0xF6, CHR 0xF8,
        CHR 0xF9, CHR 0xFA, CHR 0xFB, CHR 0xFC, CHR 0xFD, CHR 0xFE]"

definition lower_char :: "char \<Rightarrow> char" where
  "lower_char c = (case map_of (zip upper_letters lower_letters) c of None \<Rightarrow> c | Some l \<Rightarrow> l)"

definition lower :: "string \<Rightarrow> string" where
  "lower s = map lower_char s"

text \<open>\<^verbatim>\<open>keyword in response_lower\<close>: the keyword occurs as a substring.\<close>

fun startswith :: "string \<Rightarrow> string \<Rightarrow> bool" where
  "startswith s [] = True"
| "startswith [] (k # ks) = False"
| "startswith (c # cs) (k # ks) = (c = k \<and> startswith cs ks)"

fun py_in :: "string \<Rightarrow> string \<Rightarrow> bool" where
  "py_in keyword [] = (keyword = [])"
| "py_in keyword (c # cs) = (startswith (c # cs) keyword \<or> py_in keyword cs)"

text \<open>
  \<^verbatim>\<open>
  def fallback_parse(self, response: str) -> Dict[str, Any]:
      response_lower = response.lower()
      capabilities = {
          "vision": ["image", "photo", "picture", "visual", "see", "look"],
          "speech_input": ["speech", "voice", "audio", "listen", "hear"],
          "speech_output": ["speak", "say", "voice", "tts", "text to speech"],
          "video": ["video", "movie", "clip", "recording"],
          "document": ["pdf", "document", "file", "text", "extract"],
          "audio_generation": ["music", "sound", "audio", "generate", "create"],
          "embedding": ["search", "similar", "find", "memory"]
      }
      detected = []
      for capability, keywords in capabilities.items():
          if any(keyword in response_lower for keyword in keywords):
              detected.append(capability)
      return {
          "primary_capability": detected[0] if detected else "text",
          "additional_capabilities": detected[1:] if len(detected) > 1 else [],
          "reasoning": "Keyword-based detection",
          "confidence": 0.7 if detected else 0.3
      }
  \<close>
  The dictionary is read in insertion order. \<open>detect\<close> is the loop, with the list
  \<^verbatim>\<open>detected\<close> as its accumulator.
\<close>

definition capabilities :: "(string \<times> string list) list" where
  "capabilities =
     [(''vision'', [''image'', ''photo'', ''picture'', ''visual'', ''see'', ''look'']),
      (''speech_input'', [''speech'', ''voice'', ''audio'', ''listen'', ''hear'']),
      (''speech_output'', [''speak'', ''say'', ''voice'', ''tts'', ''text to speech'']),
      (''video'', [''video'', ''movie'', ''clip'', ''recording'']),
      (''document'', [''pdf'', ''document'', ''file'', ''text'', ''extract'']),
      (''audio_generation'', [''music'', ''sound'', ''audio'', ''generate'', ''create'']),
      (''embedding'', [''search'', ''similar'', ''find'', ''memory''])]"

fun detect :: "string \<Rightarrow> (string \<times> string list) list \<Rightarrow> string list \<Rightarrow> string list" where
  "detect response_lower [] detected = detected"
| "detect response_lower ((capability, keywords) # rest) detected =
     detect response_lower rest
       (if list_ex (\<lambda>keyword. py_in keyword response_lower) keywords
        then detected @ [capability] else detected)"

definition fallback_parse :: "string \<Rightarrow> json" where
  "fallback_parse response =
     (let response_lower = lower response;
          detected = detect response_lower capabilities []
      in JObj [
           (''primary_capability'', JStr (if detected \<noteq> [] then hd detected else ''text'')),
           (''additional_capabilities'',
              JArr (map JStr (if length detected > 1 then tl detected else []))),
           (''reasoning'', JStr ''Keyword-based detection''),
           (''confidence'', JFloat (if detected \<noteq> [] then 7 / 10 else 3 / 10))])"

text \<open>
  \<^verbatim>\<open>
  def parse_task_analysis(self, response: str) -> Dict[str, Any]:
      try:
          json_match = re.search(r'\{.*\}', response, re.DOTALL)
          if json_match:
              plan = json.loads(json_match.group())
              return plan
          else:
              return self.fallback_parse(response)
      except Exception as e:
          return self.fallback_parse(response)
  \<close>
\<close>

definition parse_task_analysis :: "(string \<Rightarrow> json option) \<Rightarrow> string \<Rightarrow> json" where
  "parse_task_analysis loads response =
     (case re_search_braces response of
        Some json_match \<Rightarrow>
          (case loads json_match of
             Some plan \<Rightarrow> plan
           | None \<Rightarrow> fallback_parse response)
      | None \<Rightarrow> fallback_parse response)"

text \<open>
  The keyword table as the specification words it, to compare with the code's table.
\<close>

definition spec_capabilities :: "(string \<times> string list) list" where
  "spec_capabilities =
     [(''vision'', [''image'', ''photo'', ''picture'', ''visual'']),
      (''speech_input'', [''speech'', ''voice'', ''listen'']),
      (''speech_output'', [''speak'', ''tts'']),
      (''video'', [''video'', ''clip'']),
      (''document'', [''pdf'', ''document'', ''extract'']),
      (''audio_generation'', [''music'', ''sound'', ''generate'']),
      (''embedding'', [''search'', ''similar'', ''memory''])]"

section \<open>Step execution engine (Core/agent.py)\<close>

subsection \<open>Python values and exceptions\<close>

text \<open>
  An exception is a value: its class and the text \<^verbatim>\<open>str(e)\<close> gives. A call that may raise
  returns \<open>py_error + 'a\<close>, with \<open>Inl\<close> for the exception.
\<close>

datatype py_error = AttributeError string | TypeError string

fun error_text :: "py_error \<Rightarrow> string" where
  "error_text (AttributeError msg) = msg"
| "error_text (TypeError msg) = msg"

definition and_then :: "'e + 'a \<Rightarrow> ('a \<Rightarrow> 'e + 'b) \<Rightarrow> 'e + 'b" where
  "and_then r f = (case r of Inl e \<Rightarrow> Inl e | Inr x \<Rightarrow> f x)"

fun type_name :: "json \<Rightarrow> string" where
  "type_name JNull = ''NoneType''"
| "type_name (JBool b) = ''bool''"
| "type_name (JInt i) = ''int''"
| "type_name (JFloat q) = ''float''"
| "type_name (JStr s) = ''str''"
| "type_name (JArr xs) = ''list''"
| "type_name (JObj kv) = ''dict''"

text \<open>The truth value of a decoded value: \<^verbatim>\<open>if x:\<close>.\<close>

fun truthy :: "json \<Rightarrow> bool" where
  "truthy JNull = False"
| "truthy (JBool b) = b"
| "truthy (JInt i) = (i \<noteq> 0)"
| "truthy (JFloat q) = (q \<noteq> 0)"
| "truthy (JStr s) = (s \<noteq> [])"
| "truthy (JArr xs) = (xs \<noteq> [])"
| "truthy (JObj kv) = (kv \<noteq> [])"

text \<open>
  \<^verbatim>\<open>x.get(k, default)\<close>: only a dictionary has the method; on any other decoded value the
  attribute access raises \<^verbatim>\<open>AttributeError\<close>.
\<close>

definition dict_get :: "json \<Rightarrow> string \<Rightarrow> json \<Rightarrow> py_error + json" where
  "dict_get x k dflt =
     (case x of
        JObj kv \<Rightarrow> Inr (case map_of kv k of Some v \<Rightarrow> v | None \<Rightarrow> dflt)
      | _ \<Rightarrow> Inl (AttributeError
                 ([CHR 0x27] @ type_name x @ [CHR 0x27] @ '' object has no attribute ''
                  @ [CHR 0x27] @ ''get'' @ [CHR 0x27])))"

text \<open>
  \<^verbatim>\<open>for x in v\<close> and \<^verbatim>\<open>list.extend(v)\<close>: a list gives its elements, a string its
  characters, a dictionary its keys; nothing else is iterable.
\<close>

definition py_iter :: "json \<Rightarrow> py_error + json list" where
  "py_iter v =
     (case v of
        JArr xs \<Rightarrow> Inr xs
      | JStr s \<Rightarrow> Inr (map (\<lambda>c. JStr [c]) s)
      | JObj kv \<Rightarrow> Inr (map (\<lambda>p. JStr (fst p)) kv)
      | _ \<Rightarrow> Inl (TypeError
                 ([CHR 0x27] @ type_name v @ [CHR 0x27] @ '' object is not iterable'')))"

subsection \<open>The collaborators\<close>

text \<open>
  What the agent reaches outside its own code: the configuration file, the model
  libraries, the tool registry and the standard library's formatting. A tool is called
  with the input and the plan and gives the text \<^verbatim>\<open>str(result)\<close>, or raises.

  \<^item> \<open>loader_available\<close>: \<^verbatim>\<open>MODEL_LOADER_AVAILABLE and self.model_loader\<close>;
  \<^item> \<open>main_brain\<close>: \<^verbatim>\<open>self.model_loader.main_brain\<close>;
  \<^item> \<open>models_config\<close>: \<^verbatim>\<open>self.config.get('models', {})\<close>;
  \<^item> \<open>library_load use_case path\<close>: the \<^verbatim>\<open>load_*_model\<close> function of the use case
    returned a model for the path, not \<^verbatim>\<open>None\<close>;
  \<^item> \<open>get_tool\<close>: \<^verbatim>\<open>self.tools.get_tool(tool_name)\<close>;
  \<^item> \<open>repr\<close>: \<^verbatim>\<open>str(x)\<close> of a decoded value that is not a string;
  \<^item> \<open>json_dumps\<close>, \<open>json_dumps_indent\<close>: \<^verbatim>\<open>json.dumps(x)\<close> and
    \<^verbatim>\<open>json.dumps(x, indent=2)\<close>.
\<close>

record model_config =
  enabled :: bool
  model_path :: string
  use_case :: string

type_synonym tool = "string \<Rightarrow> json \<Rightarrow> py_error + string"

record env =
  loader_available :: bool
  main_brain :: "model option"
  models_config :: "string \<Rightarrow> model_config option"
  library_load :: "string \<Rightarrow> string \<Rightarrow> bool"
  get_tool :: "json \<Rightarrow> py_error + tool option"
  repr :: "json \<Rightarrow> string"
  json_dumps :: "json \<Rightarrow> string"
  json_dumps_indent :: "json \<Rightarrow> string"

text \<open>\<^verbatim>\<open>{x}\<close> in an f-string: \<^verbatim>\<open>str(x)\<close>, the text itself for a string.\<close>

definition py_str :: "env \<Rightarrow> json \<Rightarrow> string" where
  "py_str E x = (case x of JStr s \<Rightarrow> s | _ \<Rightarrow> repr E x)"

subsection \<open>Loading models (Core/model\_loader.py)\<close>

text \<open>
  \<^verbatim>\<open>
  def load_model(self, model_name, force_reload=False):
      if model_name in self.loaded_models and not force_reload:
          return self.loaded_models[model_name]
      try:
          model_config = self.config.get('models', {}).get(model_name, {})
          if not model_config.get('enabled', False):
              return None
          model_path = model_config.get('model')
          use_case = model_config.get('use_case', 'general')
          model = None
          if use_case == "general":
              model = self.load_text_model(model_path, model_config)
          elif use_case == "vision":
              model = self.load_vision_model(model_path)
          ...
          else:
              return None
          if model:
              self.loaded_models[model_name] = model
          return model
      except Exception as e:
          return None
  \<close>
  Each \<^verbatim>\<open>load_*_model\<close> returns a dictionary with a fixed \<^verbatim>\<open>"type"\<close>, or \<^verbatim>\<open>None\<close>
  when its library fails. The function returns the new \<^verbatim>\<open>loaded_models\<close> and the model.
\<close>

definition use_case_type :: "string \<Rightarrow> string option" where
  "use_case_type uc =
     (if uc = ''general'' then Some ''text''
      else if uc \<in> set [''vision'', ''speech_input'', ''speech_output'', ''video'',
                          ''document'', ''audio_generation'', ''embedding'']
      then Some uc
      else None)"

definition load_model :: "env \<Rightarrow> loaded_models \<Rightarrow> string \<Rightarrow> bool \<Rightarrow> loaded_models \<times> model option"
  where
  "load_model E loaded model_name force_reload =
     (case (map_of loaded model_name, force_reload) of
        (Some model, False) \<Rightarrow> (loaded, Some model)
      | _ \<Rightarrow>
          (case models_config E model_name of
             None \<Rightarrow> (loaded, None)
           | Some cfg \<Rightarrow>
               if \<not> enabled cfg then (loaded, None)
               else
                 (case use_case_type (use_case cfg) of
                    None \<Rightarrow> (loaded, None)
                  | Some ty \<Rightarrow>
                      if library_load E (use_case cfg) (model_path cfg)
                      then (dict_set model_name (Model ty) loaded, Some (Model ty))
                      else (loaded, None))))"

text \<open>
  \<^verbatim>\<open>
  async def load_required_models(self, plan):
      required_models = {}
      if not MODEL_LOADER_AVAILABLE or not self.model_loader:
          return required_models
      capabilities = [plan.get("primary_capability")]
      capabilities.extend(plan.get("additional_capabilities", []))
      for capability in capabilities:
          if capability and capability != "tools":
              try:
                  model = self.model_loader.load_model(capability)
                  if model:
                      required_models[capability] = model
              except Exception as e:
                  self.logger.warning(...)
      return required_models
  \<close>
  A capability that is not a string loads nothing: \<^verbatim>\<open>load_model\<close> finds no such key
  in \<^verbatim>\<open>loaded_models\<close> or in the configuration, or raises \<^verbatim>\<open>TypeError\<close> (a list or
  dictionary is unhashable), which is caught here.
\<close>

fun load_capabilities ::
  "env \<Rightarrow> json list \<Rightarrow> loaded_models \<Rightarrow> (string \<times> model) list
     \<Rightarrow> loaded_models \<times> (string \<times> model) list" where
  "load_capabilities E [] loaded required_models = (loaded, required_models)"
| "load_capabilities E (capability # rest) loaded required_models =
     (case capability of
        JStr name \<Rightarrow>
          if name \<noteq> [] \<and> name \<noteq> ''tools'' then
            (case load_model E loaded name False of
               (loaded', Some model) \<Rightarrow>
                 load_capabilities E rest loaded' (dict_set name model required_models)
             | (loaded', None) \<Rightarrow> load_capabilities E rest loaded' required_models)
          else load_capabilities E rest loaded required_models
      | _ \<Rightarrow> load_capabilities E rest loaded required_models)"

definition load_required_models ::
  "env \<Rightarrow> loaded_models \<Rightarrow> json \<Rightarrow> py_error + (loaded_models \<times> (string \<times> model) list)" where
  "load_required_models E loaded plan =
     (if \<not> loader_available E then Inr (loaded, [])
      else
        and_then (dict_get plan ''primary_capability'' JNull) (\<lambda>primary.
        and_then (dict_get plan ''additional_capabilities'' (JArr [])) (\<lambda>additional.
        and_then (py_iter additional) (\<lambda>more.
          Inr (load_capabilities E (primary # more) loaded [])))))"

subsection \<open>The main brain and the capability handlers\<close>

text \<open>
  \<^verbatim>\<open>
  async def get_main_brain_response(self, prompt):
      try:
          if MODEL_LOADER_AVAILABLE and self.model_loader and hasattr(...):
              main_brain = self.model_loader.main_brain
              if main_brain and main_brain.get("type") == "text":
                  return f"Analyzing request: {prompt[:50]}... -> AI processing complete"
              else:
                  return f"I understand you want: {prompt[:100]}..."
          else:
              return f"Processing your request: {prompt[:50]}..."
      except Exception as e:
          return "I'm processing your request..."
  \<close>
  Nothing in the body raises.
\<close>

definition get_main_brain_response :: "env \<Rightarrow> string \<Rightarrow> string" where
  "get_main_brain_response E prompt =
     (if loader_available E then
        (case main_brain E of
           Some brain \<Rightarrow>
             if mtype brain = ''text''
             then ''Analyzing request: '' @ take 50 prompt @ ''... -> AI processing complete''
             else ''I understand you want: '' @ take 100 prompt @ ''...''
         | None \<Rightarrow> ''I understand you want: '' @ take 100 prompt @ ''...'')
      else ''Processing your request: '' @ take 50 prompt @ ''...'')"

text \<open>
  \<^verbatim>\<open>
  async def use_tool(self, tool_name, input_data, context):
      try:
          tool_function = self.tools.get_tool(tool_name)
          if tool_function:
              result = await tool_function(input_data, context)
              return str(result)
          else:
              return f"Tool {tool_name} not found"
      except Exception as e:
          return f"Error using tool {tool_name}: {e}"
  \<close>
\<close>

definition use_tool :: "env \<Rightarrow> json \<Rightarrow> string \<Rightarrow> json \<Rightarrow> string" where
  "use_tool E tool_name input_data context =
     (case and_then (get_tool E tool_name) (\<lambda>tool_function.
             case tool_function of
               Some f \<Rightarrow> f input_data context
             | None \<Rightarrow> Inr (''Tool '' @ py_str E tool_name @ '' not found'')) of
        Inr text \<Rightarrow> text
      | Inl e \<Rightarrow> ''Error using tool '' @ py_str E tool_name @ '': '' @ error_text e)"

text \<open>
  \<^verbatim>\<open>
  async def process_vision(self, input_data, vision_model):
      if not vision_model:
          return "Vision capability not available"
      try:
          return "Vision processing completed"
      except Exception as e:
          return f"Vision processing failed: {e}"
  \<close>
  and the same for speech input, speech output and embedding.
\<close>

definition process_vision :: "string \<Rightarrow> model option \<Rightarrow> string" where
  "process_vision input_data vision_model =
     (case vision_model of
        None \<Rightarrow> ''Vision capability not available''
      | Some m \<Rightarrow> ''Vision processing completed'')"

definition process_speech_input :: "string \<Rightarrow> model option \<Rightarrow> string" where
  "process_speech_input input_data speech_model =
     (case speech_model of
        None \<Rightarrow> ''Speech input capability not available''
      | Some m \<Rightarrow> ''Speech processing completed'')"

definition process_speech_output :: "string \<Rightarrow> model option \<Rightarrow> string" where
  "process_speech_output text tts_model =
     (case tts_model of
        None \<Rightarrow> ''Speech output capability not available''
      | Some m \<Rightarrow> ''Speech generation completed'')"

definition process_embedding :: "string \<Rightarrow> model option \<Rightarrow> string" where
  "process_embedding input_data embedding_model =
     (case embedding_model of
        None \<Rightarrow> ''Embedding capability not available''
      | Some m \<Rightarrow> ''Embedding processing completed'')"

text \<open>
  \<^verbatim>\<open>
  async def process_with_main_brain(self, action, user_input, context):
      prompt = f"Action: {action}\nUser Input: {user_input}\nContext: {json.dumps(context)}\n\nProvide a helpful response:"
      return await self.get_main_brain_response(prompt)
  \<close>
\<close>

definition process_with_main_brain :: "env \<Rightarrow> json \<Rightarrow> string \<Rightarrow> json \<Rightarrow> string" where
  "process_with_main_brain E action user_input context =
     get_main_brain_response E
       (''Action: '' @ py_str E action @ [CHR 0x0A] @ ''User Input: '' @ user_input
        @ [CHR 0x0A] @ ''Context: '' @ json_dumps E context @ [CHR 0x0A, CHR 0x0A]
        @ ''Provide a helpful response:'')"

subsection \<open>Executing one step\<close>

text \<open>
  \<^verbatim>\<open>
  async def execute_step(self, step, plan, user_input, user_id, models):
      try:
          action = step.get("action", "")
          capability = step.get("capability", "text")
          tool = step.get("tool")
          step_result = {
              "step_number": step.get("step", 0), "action": action,
              "capability": capability, "success": True, "result": "", "tool_used": tool
          }
          if tool:
              step_result["result"] = await self.use_tool(tool, user_input, plan)
          elif capability == "vision":
              step_result["result"] = await self.process_vision(user_input, models.get("vision"))
          elif capability == "speech_input":
              ...
          else:
              step_result["result"] = await self.process_with_main_brain(action, user_input, plan)
          return step_result
      except Exception as e:
          return {
              "step_number": step.get("step", 0), "action": step.get("action", ""),
              "success": False, "error": str(e), "result": ""
          }
  \<close>
  \<open>step_body\<close> is the \<^verbatim>\<open>try\<close> block; the handler reads \<^verbatim>\<open>step\<close> again, so what it
  raises leaves \<^verbatim>\<open>execute_step\<close>.
\<close>

definition step_result_text ::
  "env \<Rightarrow> json \<Rightarrow> json \<Rightarrow> json \<Rightarrow> json \<Rightarrow> string \<Rightarrow> (string \<times> model) list \<Rightarrow> string" where
  "step_result_text E tool capability action plan user_input models =
     (if truthy tool then use_tool E tool user_input plan
      else if capability = JStr ''vision''
        then process_vision user_input (map_of models ''vision'')
      else if capability = JStr ''speech_input''
        then process_speech_input user_input (map_of models ''speech_input'')
      else if capability = JStr ''speech_output''
        then process_speech_output user_input (map_of models ''speech_output'')
      else if capability = JStr ''embedding''
        then process_embedding user_input (map_of models ''embedding'')
      else process_with_main_brain E action user_input plan)"

definition step_body ::
  "env \<Rightarrow> json \<Rightarrow> json \<Rightarrow> string \<Rightarrow> string \<Rightarrow> (string \<times> model) list \<Rightarrow> py_error + json" where
  "step_body E step plan user_input user_id models =
     and_then (dict_get step ''action'' (JStr [])) (\<lambda>action.
     and_then (dict_get step ''capability'' (JStr ''text'')) (\<lambda>capability.
     and_then (dict_get step ''tool'' JNull) (\<lambda>tool.
     and_then (dict_get step ''step'' (JInt 0)) (\<lambda>step_number.
       Inr (JObj [
         (''step_number'', step_number),
         (''action'', action),
         (''capability'', capability),
         (''success'', JBool True),
         (''result'', JStr (step_result_text E tool capability action plan user_input models)),
         (''tool_used'', tool)])))))"

definition execute_step ::
  "env \<Rightarrow> json \<Rightarrow> json \<Rightarrow> string \<Rightarrow> string \<Rightarrow> (string \<times> model) list \<Rightarrow> py_error + json" where
  "execute_step E step plan user_input user_id models =
     (case step_body E step plan user_input user_id models of
        Inr step_result \<Rightarrow> Inr step_result
      | Inl e \<Rightarrow>
          and_then (dict_get step ''step'' (JInt 0)) (\<lambda>step_number.
          and_then (dict_get step ''action'' (JStr [])) (\<lambda>action.
            Inr (JObj [
              (''step_number'', step_number),
              (''action'', action),
              (''success'', JBool False),
              (''error'', JStr (error_text e)),
              (''result'', JStr [])]))))"

subsection \<open>Executing the plan\<close>

record execution_results =
  plan_executed :: json
  steps_completed :: "json list"
  models_used :: "string list"
  tools_used :: "json list"
  response :: string
  success :: bool
  error :: "string option"

text \<open>
  The loop of \<^verbatim>\<open>execute_plan\<close>:
  \<^verbatim>\<open>
  for step in plan.get("execution_steps", []):
      step_result = await self.execute_step(step, plan, user_input, user_id, required_models)
      execution_results["steps_completed"].append(step_result)
      if step_result.get("tool_used"):
          execution_results["tools_used"].append(step_result["tool_used"])
  \<close>
  It returns the results as they stand, and the exception when a step raised.
\<close>

definition record_step :: "json \<Rightarrow> execution_results \<Rightarrow> execution_results" where
  "record_step step_result results =
     (let tool_used = (case lookup step_result ''tool_used'' of Some t \<Rightarrow> t | None \<Rightarrow> JNull)
      in results\<lparr>
           steps_completed := steps_completed results @ [step_result],
           tools_used := (if truthy tool_used then tools_used results @ [tool_used]
                          else tools_used results)\<rparr>)"

fun run_steps ::
  "env \<Rightarrow> json \<Rightarrow> string \<Rightarrow> string \<Rightarrow> (string \<times> model) list \<Rightarrow> json list
     \<Rightarrow> execution_results \<Rightarrow> execution_results \<times> py_error option" where
  "run_steps E plan user_input user_id models [] results = (results, None)"
| "run_steps E plan user_input user_id models (step # rest) results =
     (case execute_step E step plan user_input user_id models of
        Inl e \<Rightarrow> (results, Some e)
      | Inr step_result \<Rightarrow>
          run_steps E plan user_input user_id models rest (record_step step_result results))"

text \<open>
  \<^verbatim>\<open>
  async def generate_final_response(self, execution_results, user_input, plan):
      response_prompt = f"""
      Generate a helpful response to the user based on these execution results:

      User Input: "{user_input}"
      Plan Intent: {plan.get('intent', '')}
      Steps Completed: {len(execution_results.get('steps_completed', []))}
      Success: {execution_results.get('success', False)}

      Step Results:
      {json.dumps(execution_results.get('steps_completed', []), indent=2)}

      Provide a clear, helpful response to the user:
      """
      return await self.get_main_brain_response(response_prompt)
  \<close>
  Every line of the prompt starts with eight spaces.
\<close>

definition margin :: string where
  "margin = [CHR 0x0A] @ ''        ''"

definition generate_final_response ::
  "env \<Rightarrow> execution_results \<Rightarrow> string \<Rightarrow> json \<Rightarrow> py_error + string" where
  "generate_final_response E results user_input plan =
     and_then (dict_get plan ''intent'' (JStr [])) (\<lambda>intent.
       Inr (get_main_brain_response E
         (margin @ ''Generate a helpful response to the user based on these execution results:''
          @ margin
          @ margin @ ''User Input: '' @ [CHR 0x22] @ user_input @ [CHR 0x22]
          @ margin @ ''Plan Intent: '' @ py_str E intent
          @ margin @ ''Steps Completed: ''
                   @ py_str E (JInt (int (length (steps_completed results))))
          @ margin @ ''Success: '' @ py_str E (JBool (success results))
          @ margin
          @ margin @ ''Step Results:''
          @ margin @ json_dumps_indent E (JArr (steps_completed results))
          @ margin
          @ margin @ ''Provide a clear, helpful response to the user:''
          @ margin)))"

text \<open>
  \<^verbatim>\<open>
  async def get_fallback_response(self, user_input):
      return f"I understand your request about '{user_input[:50]}...' but encountered some technical difficulties. Let me try to help in a different way."
  \<close>
\<close>

definition get_fallback_response :: "string \<Rightarrow> string" where
  "get_fallback_response user_input =
     ''I understand your request about '' @ [CHR 0x27] @ take 50 user_input @ ''...''
     @ [CHR 0x27]
     @ '' but encountered some technical difficulties. Let me try to help in a different way.''"

text \<open>
  \<^verbatim>\<open>
  async def cleanup_models(self, plan):
      if not MODEL_LOADER_AVAILABLE or not self.model_loader:
          return
      keep_models = ["deepseek-r1"]
      if plan.get("complexity") == "complex":
          keep_models.extend(["embedding", "text"])
      try:
          self.model_loader.unload_unused_models(keep_models)
      except Exception as e:
          self.logger.warning(...)
  \<close>
\<close>

definition cleanup_models :: "env \<Rightarrow> loaded_models \<Rightarrow> json \<Rightarrow> py_error + loaded_models" where
  "cleanup_models E loaded plan =
     (if \<not> loader_available E then Inr loaded
      else
        and_then (dict_get plan ''complexity'' JNull) (\<lambda>complexity.
          let keep_models = [''deepseek-r1'']
                @ (if complexity = JStr ''complex'' then [''embedding'', ''text''] else [])
          in Inr (unload_unused_models (Some keep_models) loaded)))"

text \<open>
  \<^verbatim>\<open>
  async def execute_plan(self, plan, user_input, user_id):
      execution_results = {
          "plan_executed": plan, "steps_completed": [], "models_used": [],
          "tools_used": [], "response": "", "success": True
      }
      try:
          required_models = await self.load_required_models(plan)
          execution_results["models_used"] = list(required_models.keys())
          for step in plan.get("execution_steps", []):
              ...
          final_response = await self.generate_final_response(execution_results, user_input, plan)
          execution_results["response"] = final_response
          await self.cleanup_models(plan)
          return execution_results
      except Exception as e:
          execution_results["success"] = False
          execution_results["error"] = str(e)
          execution_results["response"] = await self.get_fallback_response(user_input)
          return execution_results
  \<close>
  The function returns the results and the loader's \<^verbatim>\<open>loaded_models\<close>. \<open>plan_failed\<close> is
  the handler: it keeps what the \<^verbatim>\<open>try\<close> block had written into the results.
\<close>

definition plan_failed :: "execution_results \<Rightarrow> py_error \<Rightarrow> string \<Rightarrow> execution_results" where
  "plan_failed results e user_input =
     results\<lparr>success := False, error := Some (error_text e),
             response := get_fallback_response user_input\<rparr>"

definition execute_plan ::
  "env \<Rightarrow> loaded_models \<Rightarrow> json \<Rightarrow> string \<Rightarrow> string \<Rightarrow> execution_results \<times> loaded_models" where
  "execute_plan E loaded plan user_input user_id =
     (let results0 = \<lparr>plan_executed = plan, steps_completed = [], models_used = [],
                       tools_used = [], response = [], success = True, error = None\<rparr>
      in case load_required_models E loaded plan of
           Inl e \<Rightarrow> (plan_failed results0 e user_input, loaded)
         | Inr (loaded1, required_models) \<Rightarrow>
             let results1 = results0\<lparr>models_used := map fst required_models\<rparr>
             in case and_then (dict_get plan ''execution_steps'' (JArr [])) py_iter of
                  Inl e \<Rightarrow> (plan_failed results1 e user_input, loaded1)
                | Inr steps \<Rightarrow>
                    (case run_steps E plan user_input user_id required_models steps results1 of
                       (results2, Some e) \<Rightarrow> (plan_failed results2 e user_input, loaded1)
                     | (results2, None) \<Rightarrow>
                         (case generate_final_response E results2 user_input plan of
                            Inl e \<Rightarrow> (plan_failed results2 e user_input, loaded1)
                          | Inr final_response \<Rightarrow>
                              let results3 = results2\<lparr>response := final_response\<rparr>
                              in case cleanup_models E loaded1 plan of
                                   Inl e \<Rightarrow> (plan_failed results3 e user_input, loaded1)
                                 | Inr loaded2 \<Rightarrow> (results3, loaded2))))"

subsection \<open>Reading an execution record\<close>

fun is_obj :: "json \<Rightarrow> bool" where
  "is_obj (JObj kv) = True"
| "is_obj v = False"

definition step_number_of :: "json \<Rightarrow> json" where
  "step_number_of step = (case lookup step ''step'' of Some n \<Rightarrow> n | None \<Rightarrow> JInt 0)"

definition step_succeeded :: "json \<Rightarrow> bool" where
  "step_succeeded step_result = (lookup step_result ''success'' = Some (JBool True))"

definition visited_ids :: "execution_results \<Rightarrow> json list" where
  "visited_ids results =
     map (\<lambda>r. case lookup r ''step_number'' of Some n \<Rightarrow> n | None \<Rightarrow> JNull)
         (steps_completed results)"

definition required_models_of :: "env \<Rightarrow> loaded_models \<Rightarrow> json \<Rightarrow> (string \<times> model) list" where
  "required_models_of E loaded plan =
     (case load_required_models E loaded plan of
        Inr (loaded', required_models) \<Rightarrow> required_models
      | Inl e \<Rightarrow> [])"

definition plan_well_formed :: "env \<Rightarrow> json \<Rightarrow> bool" where
  "plan_well_formed E plan =
     (case load_required_models E [] plan of
        Inl e \<Rightarrow> False
      | Inr loaded_and_models \<Rightarrow>
          (case and_then (dict_get plan ''execution_steps'' (JArr [])) py_iter of
             Inl e \<Rightarrow> False
           | Inr steps \<Rightarrow> list_all is_obj steps))"

fun deps_visited_first :: "json list \<Rightarrow> json list \<Rightarrow> bool" where
  "deps_visited_first visited [] = True"
| "deps_visited_first visited (step # rest) =
     (list_all (\<lambda>d. d \<in> set visited) (step_deps step)
      \<and> deps_visited_first (visited @ [step_number_of step]) rest)"

text \<open>
  The entries the loop of \<^verbatim>\<open>execute_plan\<close> goes through: those of
  \<^verbatim>\<open>execution_steps\<close>, and none when an exception comes first, that is when
  \<^verbatim>\<open>load_required_models\<close> raises (the plan is not an object, or the loader is there and
  \<^verbatim>\<open>additional_capabilities\<close> cannot be iterated) or \<^verbatim>\<open>execution_steps\<close> cannot be
  iterated.
\<close>

definition listed_steps :: "env \<Rightarrow> json \<Rightarrow> json list" where
  "listed_steps E plan =
     (case load_required_models E [] plan of
        Inl e \<Rightarrow> []
      | Inr loaded_and_models \<Rightarrow>
          (case and_then (dict_get plan ''execution_steps'' (JArr [])) py_iter of
             Inl e \<Rightarrow> []
           | Inr steps \<Rightarrow> steps))"

subsection \<open>A concrete environment and plans\<close>

text \<open>
  The environment of the concrete runs below: the loader is there and its main brain is a
  text model; the configuration enables a vision model, but its library fails to load it;
  the tool registry is the placeholder one, which knows no tool. The three formatting
  functions print a fixed mark: they only word the prompt excerpts, and no fact stated
  about a run depends on them.
\<close>

definition demo_env :: env where
  "demo_env =
     \<lparr>loader_available = True,
      main_brain = Some (Model ''text''),
      models_config = (\<lambda>name. if name = ''vision''
                                 then Some \<lparr>enabled = True, model_path = ''blip'', use_case = ''vision''\<rparr>
                                 else None),
      library_load = (\<lambda>use_case path. False),
      get_tool = (\<lambda>tool_name. Inr None),
      repr = (\<lambda>x. ''<value>''),
      json_dumps = (\<lambda>x. ''<json>''),
      json_dumps_indent = (\<lambda>x. ''<json>'')\<rparr>"

text \<open>
  The specification's scenario of a single vision step, in the code's keys.
\<close>

definition vision_plan :: json where
  "vision_plan =
     JObj [(''primary_capability'', JStr ''vision''),
           (''execution_steps'', JArr [
              JObj [(''step'', JInt 1), (''action'', JStr ''describe image''),
                    (''capability'', JStr ''vision''), (''depends_on'', JArr [])]])]"

text \<open>A decoded plan whose second step is the number 7 instead of an object.\<close>

definition broken_plan :: json where
  "broken_plan =
     JObj [(''intent'', JStr ''greet''),
           (''execution_steps'', JArr [
              JObj [(''step'', JInt 1), (''action'', JStr ''say hello''),
                    (''capability'', JStr ''vision'')],
              JInt 7])]"

text \<open>A plan that lists step 1, which depends on step 2, before step 2.\<close>

definition unordered_plan :: json where
  "unordered_plan =
     JObj [(''intent'', JStr ''report''),
           (''execution_steps'', JArr [
              JObj [(''step'', JInt 1), (''action'', JStr ''summarise''),
                    (''capability'', JStr ''embedding''), (''depends_on'', JArr [JInt 2])],
              JObj [(''step'', JInt 2), (''action'', JStr ''fetch''),
                    (''capability'', JStr ''vision''), (''depends_on'', JArr [])]])]"



text \<open>
  A plan of two step objects whose \<^verbatim>\<open>additional_capabilities\<close> is \<^verbatim>\<open>null\<close>.
\<close>

definition unloadable_plan :: json where
  "unloadable_plan =
     JObj [(''intent'', JStr ''report''),
           (''additional_capabilities'', JNull),
           (''execution_steps'', JArr [
              JObj [(''step'', JInt 1), (''action'', JStr ''fetch'')],
              JObj [(''step'', JInt 2), (''action'', JStr ''summarise'')]])]"

section \<open>Properties of the plan parser\<close>

lemmas decoder_simps = json_loads_def idle_char_def is_space_def is_digit_def digit_val_def
  int_token_def frac_token_def dict_set_def unescape_def

lemmas plan_simps = deps_acyclic_def deps_declared_def dep_graph_def plan_steps_def
  lookup_def step_deps_def

lemma re_search_braces_span:
  assumes "CHR ''{'' \<notin> set pre" and "CHR ''}'' \<notin> set post"
  shows "re_search_braces (pre @ CHR ''{'' # mid @ CHR ''}'' # post)
           = Some (CHR ''{'' # mid @ [CHR ''}''])"
proof -
  have 1: "dropWhile (\<lambda>c. c \<noteq> CHR ''{'') (pre @ CHR ''{'' # mid @ CHR ''}'' # post)
             = CHR ''{'' # mid @ CHR ''}'' # post"
    using assms(1) by (induction pre) auto
  have "dropWhile (\<lambda>c. c \<noteq> CHR ''}'') (rev (mid @ CHR ''}'' # post)) = CHR ''}'' # rev mid"
    using assms(2) by (induction post rule: rev_induct) auto
  then have 2: "rev (dropWhile (\<lambda>c. c \<noteq> CHR ''}'') (rev (mid @ CHR ''}'' # post)))
                  = mid @ [CHR ''}'']"
    by simp
  have 3: "(case mid @ [CHR ''}''] of [] \<Rightarrow> None | b # bs \<Rightarrow> Some (CHR ''{'' # b # bs))
             = Some (CHR ''{'' # mid @ [CHR ''}''])"
    by (cases mid) simp_all
  show ?thesis
    unfolding re_search_braces_def 1 list.case 2 by (rule 3)
qed

lemma fallback_plan_invariant:
  "deps_acyclic (create_fallback_plan u) \<and> deps_declared (create_fallback_plan u)"
  by (simp add: plan_simps create_fallback_plan_def acyclic_def)

lemma cyclic_plan_decoded:
  "json_loads ''{\"intent\":\"loop\",\"execution_steps\":[{\"step\":1,\"depends_on\":[2]},{\"step\":2,\"depends_on\":[1]}]}''
     = Some (JObj [(''intent'', JStr ''loop''), (''execution_steps'', JArr [
         JObj [(''step'', JInt 1), (''depends_on'', JArr [JInt 2])],
         JObj [(''step'', JInt 2), (''depends_on'', JArr [JInt 1])]])])"
  by (simp add: decoder_simps)

lemma cyclic_plan_matched:
  "re_search_braces
     ''{\"intent\":\"loop\",\"execution_steps\":[{\"step\":1,\"depends_on\":[2]},{\"step\":2,\"depends_on\":[1]}]}''
     = Some ''{\"intent\":\"loop\",\"execution_steps\":[{\"step\":1,\"depends_on\":[2]},{\"step\":2,\"depends_on\":[1]}]}''"
  by (simp add: re_search_braces_def)

text \<open>
  C1, as stated, fails: the specification's own cyclic plan (step 1 depends on step 2 and
  step 2 on step 1) is decoded and returned as it is, not replaced by the fallback plan.
\<close>

theorem parse_returns_cyclic_plan:
  "parse_execution_plan json_loads
     ''{\"intent\":\"loop\",\"execution_steps\":[{\"step\":1,\"depends_on\":[2]},{\"step\":2,\"depends_on\":[1]}]}''
     = JObj [(''intent'', JStr ''loop''), (''execution_steps'', JArr [
         JObj [(''step'', JInt 1), (''depends_on'', JArr [JInt 2])],
         JObj [(''step'', JInt 2), (''depends_on'', JArr [JInt 1])]])]
   \<and> \<not> deps_acyclic (parse_execution_plan json_loads
     ''{\"intent\":\"loop\",\"execution_steps\":[{\"step\":1,\"depends_on\":[2]},{\"step\":2,\"depends_on\":[1]}]}'')"
proof -
  have "\<not> deps_acyclic (JObj [(''intent'', JStr ''loop''), (''execution_steps'', JArr [
         JObj [(''step'', JInt 1), (''depends_on'', JArr [JInt 2])],
         JObj [(''step'', JInt 2), (''depends_on'', JArr [JInt 1])]])])"
    by (auto simp add: plan_simps)
  then show ?thesis
    by (simp only: parse_execution_plan_def cyclic_plan_matched cyclic_plan_decoded option.case
        simp_thms)
qed

text \<open>
  C1, amended. For every text: when the matched text decodes, \<^verbatim>\<open>parse_execution_plan\<close>
  returns exactly the decoded value, whatever its dependencies are (a plan with a cycle, or
  with a \<^verbatim>\<open>depends_on\<close> entry that names no step, is returned as decoded: nothing is
  checked and nothing is replaced); when there is no match or the matched text does not
  decode, it returns the fallback plan, whose dependency graph has no cycle and whose
  \<^verbatim>\<open>depends_on\<close> entries all name a step of the plan.
\<close>

theorem parse_execution_plan_result:
  "(\<forall>m plan. re_search_braces raw = Some m \<and> loads m = Some plan
       \<longrightarrow> parse_execution_plan loads raw = plan)
   \<and> (re_search_braces raw = None \<or> (\<exists>m. re_search_braces raw = Some m \<and> loads m = None)
       \<longrightarrow> parse_execution_plan loads raw = create_fallback_plan []
           \<and> deps_acyclic (parse_execution_plan loads raw)
           \<and> deps_declared (parse_execution_plan loads raw))"
proof (intro conjI allI impI)
  fix m plan
  assume "re_search_braces raw = Some m \<and> loads m = Some plan"
  then show "parse_execution_plan loads raw = plan"
    by (simp add: parse_execution_plan_def)
next
  assume undecodable:
    "re_search_braces raw = None \<or> (\<exists>m. re_search_braces raw = Some m \<and> loads m = None)"
  then have fb: "parse_execution_plan loads raw = create_fallback_plan []"
    by (auto simp: parse_execution_plan_def)
  then show "parse_execution_plan loads raw = create_fallback_plan []" .
  from fb fallback_plan_invariant [of "[]"]
  show "deps_acyclic (parse_execution_plan loads raw)"
    and "deps_declared (parse_execution_plan loads raw)" by simp_all
qed

theorem parse_execution_plan_result_witness:
  "parse_execution_plan json_loads
     ''Plan: {\"intent\":\"sum\",\"execution_steps\":[{\"step\":1,\"depends_on\":[5]}]}''
     = JObj [(''intent'', JStr ''sum''), (''execution_steps'', JArr [
         JObj [(''step'', JInt 1), (''depends_on'', JArr [JInt 5])]])]
   \<and> \<not> deps_declared (parse_execution_plan json_loads
     ''Plan: {\"intent\":\"sum\",\"execution_steps\":[{\"step\":1,\"depends_on\":[5]}]}'')
   \<and> parse_execution_plan json_loads ''I can not give a plan'' = create_fallback_plan []
   \<and> deps_acyclic (parse_execution_plan json_loads ''I can not give a plan'')
   \<and> deps_declared (parse_execution_plan json_loads ''I can not give a plan'')"
proof -
  let ?raw = "''Plan: {\"intent\":\"sum\",\"execution_steps\":[{\"step\":1,\"depends_on\":[5]}]}''"
  let ?m = "''{\"intent\":\"sum\",\"execution_steps\":[{\"step\":1,\"depends_on\":[5]}]}''"
  let ?plan = "JObj [(''intent'', JStr ''sum''), (''execution_steps'', JArr [
         JObj [(''step'', JInt 1), (''depends_on'', JArr [JInt 5])]])]"
  have m: "re_search_braces ?raw = Some ?m"
    by (simp add: re_search_braces_def)
  have d: "json_loads ?m = Some ?plan"
    by (simp add: decoder_simps)
  from parse_execution_plan_result [of ?raw json_loads] m d
  have 1: "parse_execution_plan json_loads ?raw = ?plan" by blast
  have "\<not> deps_declared ?plan" by (simp add: plan_simps)
  with 1 have 2: "\<not> deps_declared (parse_execution_plan json_loads ?raw)" by simp
  have none: "re_search_braces ''I can not give a plan'' = None"
    by (simp add: re_search_braces_def)
  from parse_execution_plan_result [of "''I can not give a plan''" json_loads] none
  have 3: "parse_execution_plan json_loads ''I can not give a plan'' = create_fallback_plan []
     \<and> deps_acyclic (parse_execution_plan json_loads ''I can not give a plan'')
     \<and> deps_declared (parse_execution_plan json_loads ''I can not give a plan'')" by blast
  from 1 2 3 show ?thesis by (intro conjI) blast+
qed

text \<open>
  C7. \<^verbatim>\<open>parse_execution_plan\<close> is total: a failed match and a failed decode are both
  answered by a plan. For every text with no match, or whose matched text does not decode,
  it returns exactly the fallback plan: intent "Respond to user request", complexity
  simple, primary capability text, the single step 1 "Generate helpful response" with
  capability text and no dependencies, and confidence 0.5.
\<close>

theorem parse_execution_plan_fallback:
  assumes "re_search_braces raw = None
           \<or> (\<exists>m. re_search_braces raw = Some m \<and> loads m = None)"
  shows "parse_execution_plan loads raw = create_fallback_plan []
       \<and> lookup (parse_execution_plan loads raw) ''intent'' = Some (JStr ''Respond to user request'')
       \<and> lookup (parse_execution_plan loads raw) ''complexity'' = Some (JStr ''simple'')
       \<and> lookup (parse_execution_plan loads raw) ''primary_capability'' = Some (JStr ''text'')
       \<and> lookup (parse_execution_plan loads raw) ''execution_steps''
           = Some (JArr [JObj [(''step'', JInt 1),
                               (''action'', JStr ''Generate helpful response''),
                               (''capability'', JStr ''text''),
                               (''depends_on'', JArr [])]])
       \<and> lookup (parse_execution_plan loads raw) ''confidence'' = Some (JFloat (5 / 10))"
proof -
  from assms have "parse_execution_plan loads raw = create_fallback_plan []"
    by (auto simp: parse_execution_plan_def)
  then show ?thesis
    by (simp add: create_fallback_plan_def lookup_def)
qed

theorem parse_execution_plan_fallback_witness:
  "parse_execution_plan json_loads ''Sure! {plan: none}'' = create_fallback_plan []
   \<and> lookup (parse_execution_plan json_loads ''Sure! {plan: none}'') ''confidence''
       = Some (JFloat (5 / 10))"
proof -
  have "re_search_braces ''Sure! {plan: none}'' = Some ''{plan: none}''"
    by (simp add: re_search_braces_def)
  moreover have "json_loads ''{plan: none}'' = None"
    by (simp add: decoder_simps)
  ultimately have undecodable:
    "re_search_braces ''Sure! {plan: none}'' = None
     \<or> (\<exists>m. re_search_braces ''Sure! {plan: none}'' = Some m \<and> json_loads m = None)"
    by simp
  from parse_execution_plan_fallback [OF undecodable] show ?thesis by blast
qed

text \<open>
  C8, as stated, fails: in a text with two payloads the first balanced payload is
  \<^verbatim>\<open>{"a":1}\<close>, which decodes, but the code matches from the first opening brace to the
  last closing brace, the whole text, which does not decode; the fallback plan is returned.
\<close>

theorem first_balanced_payload_not_decoded:
  "first_balanced ''{\"a\":1} {\"b\":2}'' = Some ''{\"a\":1}''
   \<and> json_loads ''{\"a\":1}'' = Some (JObj [(''a'', JInt 1)])
   \<and> re_search_braces ''{\"a\":1} {\"b\":2}'' = Some ''{\"a\":1} {\"b\":2}''
   \<and> json_loads ''{\"a\":1} {\"b\":2}'' = None
   \<and> parse_execution_plan json_loads ''{\"a\":1} {\"b\":2}'' = create_fallback_plan []"
proof -
  have 1: "first_balanced ''{\"a\":1} {\"b\":2}'' = Some ''{\"a\":1}''"
    by simp
  have 2: "json_loads ''{\"a\":1}'' = Some (JObj [(''a'', JInt 1)])"
    by (simp add: decoder_simps)
  have 3: "re_search_braces ''{\"a\":1} {\"b\":2}'' = Some ''{\"a\":1} {\"b\":2}''"
    by (simp add: re_search_braces_def)
  have 4: "json_loads ''{\"a\":1} {\"b\":2}'' = None"
    by (simp add: decoder_simps)
  have 5: "parse_execution_plan json_loads ''{\"a\":1} {\"b\":2}'' = create_fallback_plan []"
    by (simp only: parse_execution_plan_def 3 4 option.case)
  from 1 2 3 4 5 show ?thesis by (intro conjI)
qed

text \<open>
  C8, amended. For every text with an opening brace and a closing brace after it, the
  text that is decoded is the span from the first opening brace to the last closing
  brace: the plan is what \<^verbatim>\<open>json.loads\<close> makes of that span, and the fallback plan when
  the span does not decode.
\<close>

theorem parse_decodes_first_to_last_brace:
  assumes "raw = pre @ CHR ''{'' # mid @ CHR ''}'' # post"
    and "CHR ''{'' \<notin> set pre" and "CHR ''}'' \<notin> set post"
  shows "re_search_braces raw = Some (CHR ''{'' # mid @ [CHR ''}''])
       \<and> parse_execution_plan loads raw =
           (case loads (CHR ''{'' # mid @ [CHR ''}'']) of
              Some plan \<Rightarrow> plan
            | None \<Rightarrow> create_fallback_plan [])"
proof -
  have "re_search_braces raw = Some (CHR ''{'' # mid @ [CHR ''}''])"
    unfolding assms(1) using assms(2,3) by (rule re_search_braces_span)
  then show ?thesis by (simp add: parse_execution_plan_def)
qed

theorem parse_decodes_first_to_last_brace_witness:
  "re_search_braces ''Plan: {\"a\":{\"b\":2}} done'' = Some ''{\"a\":{\"b\":2}}''
   \<and> parse_execution_plan json_loads ''Plan: {\"a\":{\"b\":2}} done''
       = JObj [(''a'', JObj [(''b'', JInt 2)])]"
proof -
  have "json_loads ''{\"a\":{\"b\":2}}'' = Some (JObj [(''a'', JObj [(''b'', JInt 2)])])"
    by (simp add: decoder_simps)
  then show ?thesis
    using parse_decodes_first_to_last_brace
      [of "''Plan: {\"a\":{\"b\":2}} done''" "''Plan: ''" "''\"a\":{\"b\":2}''" "'' done''" json_loads]
    by simp
qed

section \<open>Properties of the keyword classifier\<close>

lemmas fp_simps = fallback_parse_def lower_def lower_char_def upper_letters_def
  lower_letters_def capabilities_def

lemma startswith_iff: "startswith s k \<longleftrightarrow> (\<exists>post. s = k @ post)"
  by (induction s k rule: startswith.induct) auto

lemma py_in_iff: "py_in k s \<longleftrightarrow> (\<exists>pre post. s = pre @ k @ post)"
proof (induction s)
  case Nil
  show ?case by auto
next
  case (Cons c cs)
  have "(\<exists>pre post. c # cs = pre @ k @ post)
          \<longleftrightarrow> (\<exists>post. c # cs = k @ post) \<or> (\<exists>pre post. cs = pre @ k @ post)"
  proof
    assume "\<exists>pre post. c # cs = pre @ k @ post"
    then obtain pre post where eq: "c # cs = pre @ k @ post" by blast
    show "(\<exists>post. c # cs = k @ post) \<or> (\<exists>pre post. cs = pre @ k @ post)"
    proof (cases pre)
      case Nil
      with eq show ?thesis by auto
    next
      case (Cons p ps)
      with eq have "cs = ps @ k @ post" by simp
      then show ?thesis by blast
    qed
  next
    assume "(\<exists>post. c # cs = k @ post) \<or> (\<exists>pre post. cs = pre @ k @ post)"
    then show "\<exists>pre post. c # cs = pre @ k @ post"
    proof
      assume "\<exists>post. c # cs = k @ post"
      then obtain post where "c # cs = [] @ k @ post" by auto
      then show ?thesis by blast
    next
      assume "\<exists>pre post. cs = pre @ k @ post"
      then obtain pre post where "c # cs = (c # pre) @ k @ post" by auto
      then show ?thesis by blast
    qed
  qed
  with Cons show ?case by (simp add: startswith_iff)
qed

lemma detect_filter:
  "detect r table acc = acc @ map fst (filter (\<lambda>entry. list_ex (\<lambda>k. py_in k r) (snd entry)) table)"
  by (induction r table acc rule: detect.induct) auto


text \<open>
  C6, as stated, fails twice. The code's table has keywords the claim's table lacks: in
  "look at this" no keyword of the claim's table occurs, yet the code answers vision with
  confidence 0.7. And when nothing matches ("hello"), the code answers primary capability
  text with confidence 0.3; it does not return the fallback plan with confidence 0.5.
\<close>

theorem fallback_parse_not_spec_table:
  "detect (lower ''look at this'') spec_capabilities [] = []
   \<and> lookup (fallback_parse ''look at this'') ''primary_capability'' = Some (JStr ''vision'')
   \<and> lookup (fallback_parse ''look at this'') ''confidence'' = Some (JFloat (7 / 10))
   \<and> detect (lower ''hello'') capabilities [] = []
   \<and> lookup (fallback_parse ''hello'') ''confidence'' = Some (JFloat (3 / 10))
   \<and> fallback_parse ''hello'' \<noteq> create_fallback_plan []"
proof -
  have 1: "detect (lower ''look at this'') spec_capabilities [] = []"
    by (simp add: fp_simps spec_capabilities_def)
  have 2: "fallback_parse ''look at this'' = JObj [
        (''primary_capability'', JStr ''vision''),
        (''additional_capabilities'', JArr []),
        (''reasoning'', JStr ''Keyword-based detection''),
        (''confidence'', JFloat (7 / 10))]"
    by (simp add: fp_simps)
  have 3: "detect (lower ''hello'') capabilities [] = []"
    by (simp add: fp_simps)
  have 4: "fallback_parse ''hello'' = JObj [
        (''primary_capability'', JStr ''text''),
        (''additional_capabilities'', JArr []),
        (''reasoning'', JStr ''Keyword-based detection''),
        (''confidence'', JFloat (3 / 10))]"
    by (simp add: fp_simps)
  have 5: "fallback_parse ''hello'' \<noteq> create_fallback_plan []"
    unfolding 4 by (simp add: create_fallback_plan_def)
  show ?thesis
    using 1 3 5 unfolding 2 4 by (simp add: lookup_def)
qed

text \<open>
  C6, amended. For every text, the classifier matches the lower-cased text against the
  code's table (\<open>capabilities\<close>: the claim's keywords and also see, look; audio, hear;
  say, voice, text to speech; movie, recording; file, text; audio, create; find): a
  capability is detected when one of its keywords occurs in the text. The first detected
  capability, in table order, is the primary capability and the others the additional
  ones; confidence is 0.7. When nothing is detected the answer is primary capability text,
  no additional capabilities and confidence 0.3.
\<close>

theorem fallback_parse_detects:
  "capabilities =
     [(''vision'', [''image'', ''photo'', ''picture'', ''visual'', ''see'', ''look'']),
      (''speech_input'', [''speech'', ''voice'', ''audio'', ''listen'', ''hear'']),
      (''speech_output'', [''speak'', ''say'', ''voice'', ''tts'', ''text to speech'']),
      (''video'', [''video'', ''movie'', ''clip'', ''recording'']),
      (''document'', [''pdf'', ''document'', ''file'', ''text'', ''extract'']),
      (''audio_generation'', [''music'', ''sound'', ''audio'', ''generate'', ''create'']),
      (''embedding'', [''search'', ''similar'', ''find'', ''memory''])]
   \<and> (let detected = map fst (filter (\<lambda>entry. \<exists>keyword \<in> set (snd entry).
                                      \<exists>pre post. lower raw = pre @ keyword @ post) capabilities)
   in fallback_parse raw = JObj [
        (''primary_capability'', JStr (case detected of [] \<Rightarrow> ''text'' | c # _ \<Rightarrow> c)),
        (''additional_capabilities'', JArr (map JStr (tl detected))),
        (''reasoning'', JStr ''Keyword-based detection''),
        (''confidence'', JFloat (if detected = [] then 3 / 10 else 7 / 10))])"
proof -
  define detected where "detected = map fst (filter (\<lambda>entry. \<exists>keyword \<in> set (snd entry).
                                      \<exists>pre post. lower raw = pre @ keyword @ post) capabilities)"
  have d: "detect (lower raw) capabilities [] = detected"
    by (simp add: detect_filter detected_def py_in_iff list_ex_iff)
  have "fallback_parse raw = JObj [
        (''primary_capability'', JStr (case detected of [] \<Rightarrow> ''text'' | c # _ \<Rightarrow> c)),
        (''additional_capabilities'', JArr (map JStr (tl detected))),
        (''reasoning'', JStr ''Keyword-based detection''),
        (''confidence'', JFloat (if detected = [] then 3 / 10 else 7 / 10))]"
    unfolding fallback_parse_def Let_def d by (cases detected) auto
  then show ?thesis
    unfolding detected_def Let_def by (simp add: capabilities_def)
qed


theorem fallback_parse_detects_witness:
  "fallback_parse ''Find the Photo'' = JObj
  [(''primary_capability'', JStr ''vision''),
   (''additional_capabilities'', JArr [JStr ''embedding'']),
   (''reasoning'', JStr ''Keyword-based detection''),
   (''confidence'', JFloat (7 / 10))]"
  using fallback_parse_detects [of "''Find the Photo''", THEN conjunct2]
  by (simp add: py_in_iff [symmetric] lower_def lower_char_def upper_letters_def lower_letters_def capabilities_def
       del: map_eq_conv)


section \<open>Properties of unloading\<close>

lemma fold_del_key: "fold del_key ks d = filter (\<lambda>p. fst p \<notin> set ks) d"
proof (induction ks arbitrary: d)
  case Nil
  show ?case by simp
next
  case (Cons k ks)
  have "fold del_key (k # ks) d = fold del_key ks (del_key k d)" by simp
  also have "\<dots> = filter (\<lambda>p. fst p \<notin> set ks) (del_key k d)" by (rule Cons.IH)
  also have "\<dots> = filter (\<lambda>p. fst p \<notin> set (k # ks)) d"
    by (auto simp: del_key_def intro: filter_cong)
  finally show ?case .
qed

lemma unload_is_filter:
  "unload_unused_models keep_models loaded =
     filter (\<lambda>p. fst p \<in> set (keep_or_default keep_models)) loaded"
proof -
  let ?keep = "keep_or_default keep_models"
  have "filter (\<lambda>p. fst p \<notin> set (filter (\<lambda>n. n \<notin> set ?keep) (map fst loaded))) loaded
        = filter (\<lambda>p. fst p \<in> set ?keep) loaded"
    by (rule filter_cong) auto
  then show ?thesis
    by (simp add: unload_unused_models_def Let_def fold_del_key)
qed

lemma unload_remaining_subset:
  "set (map fst (unload_unused_models keep_models loaded))
     \<subseteq> set (keep_or_default keep_models)"
  by (auto simp: unload_is_filter)

text \<open>
  C10. An empty keep list is replaced by the default \<^verbatim>\<open>["deepseek-r1"]\<close>: the call
  behaves exactly as the call with no keep list, every entry named \<^verbatim>\<open>deepseek-r1\<close>
  stays loaded and exactly the other entries are evicted.
\<close>

theorem unload_empty_keep_list:
  "unload_unused_models (Some []) loaded = unload_unused_models None loaded
   \<and> unload_unused_models (Some []) loaded = filter (\<lambda>p. fst p = ''deepseek-r1'') loaded
   \<and> map_of (unload_unused_models (Some []) loaded) ''deepseek-r1'' = map_of loaded ''deepseek-r1''"
proof -
  have eq: "unload_unused_models (Some []) loaded = filter (\<lambda>p. fst p = ''deepseek-r1'') loaded"
    by (simp add: unload_is_filter keep_or_default_def)
  have same: "unload_unused_models (Some []) loaded = unload_unused_models None loaded"
    by (simp add: unload_is_filter keep_or_default_def)
  have "map_of (filter (\<lambda>p. fst p = ''deepseek-r1'') loaded) ''deepseek-r1''
          = map_of loaded ''deepseek-r1''"
    by (induction loaded) auto
  with eq same show ?thesis by simp
qed

theorem unload_empty_keep_list_witness:
  "unload_unused_models (Some [])
      [(''deepseek-r1'', Model ''text''), (''vision'', Model ''vision''),
       (''embedding'', Model ''embedding'')]
     = [(''deepseek-r1'', Model ''text'')]"
proof -
  let ?loaded = "[(''deepseek-r1'', Model ''text''), (''vision'', Model ''vision''),
                  (''embedding'', Model ''embedding'')]"
  have "unload_unused_models (Some []) ?loaded = filter (\<lambda>p. fst p = ''deepseek-r1'') ?loaded"
    using unload_empty_keep_list [of ?loaded] by (rule conjunct2 [THEN conjunct1])
  also have "\<dots> = [(''deepseek-r1'', Model ''text'')]" by simp
  finally show ?thesis .
qed

text \<open>
  C5. The part of the claim that the main-brain model is kept whatever keep list the
  caller passes does not hold of the code: with the non-empty keep list
  \<^verbatim>\<open>["vision"]\<close> the entry \<^verbatim>\<open>deepseek-r1\<close> is evicted, although the comment on the
  first line of the function says "Always keep main brain".
\<close>

theorem unload_evicts_main_brain:
  "unload_unused_models (Some [''vision''])
      [(''deepseek-r1'', Model ''text''), (''vision'', Model ''vision'')]
     = [(''vision'', Model ''vision'')]"
  by (simp add: unload_is_filter keep_or_default_def)

section \<open>Properties of the execution engine\<close>

lemma dict_get_obj:
  "dict_get (JObj kv) k d = Inr (case map_of kv k of Some v \<Rightarrow> v | None \<Rightarrow> d)"
  by (simp add: dict_get_def)

lemma dict_get_not_obj: "\<not> is_obj x \<Longrightarrow> \<exists>e. dict_get x k d = Inl e"
  by (cases x) (simp_all add: dict_get_def)

lemma step_body_obj:
  "step_body E (JObj kv) plan ui uid models =
     Inr (JObj [
       (''step_number'', step_number_of (JObj kv)),
       (''action'', case map_of kv ''action'' of Some v \<Rightarrow> v | None \<Rightarrow> JStr []),
       (''capability'', case map_of kv ''capability'' of Some v \<Rightarrow> v | None \<Rightarrow> JStr ''text''),
       (''success'', JBool True),
       (''result'', JStr (step_result_text E
            (case map_of kv ''tool'' of Some v \<Rightarrow> v | None \<Rightarrow> JNull)
            (case map_of kv ''capability'' of Some v \<Rightarrow> v | None \<Rightarrow> JStr ''text'')
            (case map_of kv ''action'' of Some v \<Rightarrow> v | None \<Rightarrow> JStr [])
            plan ui models)),
       (''tool_used'', case map_of kv ''tool'' of Some v \<Rightarrow> v | None \<Rightarrow> JNull)])"
  by (simp add: step_body_def dict_get_obj and_then_def step_number_of_def lookup_def)

lemma execute_step_obj:
  "execute_step E (JObj kv) plan ui uid models = step_body E (JObj kv) plan ui uid models"
  by (simp add: execute_step_def step_body_obj)

lemma execute_step_not_obj:
  assumes "\<not> is_obj step"
  shows "\<exists>e. execute_step E step plan ui uid models = Inl e"
proof -
  from assms obtain e where e: "dict_get step ''action'' (JStr []) = Inl e"
    using dict_get_not_obj by blast
  from assms obtain e' where e': "dict_get step ''step'' (JInt 0) = Inl e'"
    using dict_get_not_obj by blast
  have "step_body E step plan ui uid models = Inl e"
    by (simp add: step_body_def e and_then_def)
  then show ?thesis
    by (simp add: execute_step_def e' and_then_def)
qed

lemma execute_step_Inr_iff:
  "(\<exists>r. execute_step E step plan ui uid models = Inr r) \<longleftrightarrow> is_obj step"
proof (cases step)
  case (JObj kv)
  then show ?thesis by (simp add: execute_step_obj step_body_obj)
qed (use execute_step_not_obj [of step E plan ui uid models] in auto)

lemma execute_step_result:
  assumes "execute_step E step plan ui uid models = Inr r"
  shows "step_succeeded r \<and> lookup r ''step_number'' = Some (step_number_of step)
         \<and> lookup r ''error'' = None"
proof (cases step)
  case (JObj kv)
  with assms show ?thesis
    by (auto simp: execute_step_obj step_body_obj step_succeeded_def lookup_def)
qed (use assms execute_step_not_obj [of step E plan ui uid models] in auto)

lemma record_step_fields [simp]:
  "steps_completed (record_step r results) = steps_completed results @ [r]"
  "success (record_step r results) = success results"
  "error (record_step r results) = error results"
  "models_used (record_step r results) = models_used results"
  "response (record_step r results) = response results"
  by (simp_all add: record_step_def Let_def)

lemma run_steps_completed:
  "map Inr (steps_completed (fst (run_steps E plan ui uid models steps results)))
     = map Inr (steps_completed results)
       @ map (\<lambda>s. execute_step E s plan ui uid models) (takeWhile is_obj steps)"
proof (induction steps arbitrary: results)
  case Nil
  show ?case by simp
next
  case (Cons step rest)
  show ?case
  proof (cases "execute_step E step plan ui uid models")
    case (Inl e)
    then have "\<not> is_obj step" using execute_step_Inr_iff [of E step plan ui uid models] by auto
    with Inl show ?thesis by simp
  next
    case (Inr r)
    then have "is_obj step" using execute_step_Inr_iff [of E step plan ui uid models] by auto
    with Inr Cons.IH [of "record_step r results"] show ?thesis by simp
  qed
qed

lemma run_steps_raises:
  "snd (run_steps E plan ui uid models steps results) = None \<longleftrightarrow> list_all is_obj steps"
proof (induction steps arbitrary: results)
  case Nil
  show ?case by simp
next
  case (Cons step rest)
  show ?case
  proof (cases "execute_step E step plan ui uid models")
    case (Inl e)
    then have "\<not> is_obj step" using execute_step_Inr_iff [of E step plan ui uid models] by auto
    with Inl show ?thesis by simp
  next
    case (Inr r)
    then have "is_obj step" using execute_step_Inr_iff [of E step plan ui uid models] by auto
    with Inr Cons.IH [of "record_step r results"] show ?thesis by simp
  qed
qed

lemma run_steps_keeps:
  "success (fst (run_steps E plan ui uid models steps results)) = success results"
  "error (fst (run_steps E plan ui uid models steps results)) = error results"
  by (induction steps arbitrary: results) (auto split: sum.splits)

lemma run_steps_all_succeeded:
  "list_all step_succeeded (steps_completed results) \<Longrightarrow>
   list_all step_succeeded (steps_completed (fst (run_steps E plan ui uid models steps results)))"
proof (induction steps arbitrary: results)
  case Nil
  then show ?case by simp
next
  case (Cons step rest)
  show ?case
  proof (cases "execute_step E step plan ui uid models")
    case (Inl e)
    with Cons.prems show ?thesis by simp
  next
    case (Inr r)
    then have "step_succeeded r" using execute_step_result by blast
    with Cons.prems have "list_all step_succeeded (steps_completed (record_step r results))"
      by simp
    from Cons.IH [OF this] Inr show ?thesis by simp
  qed
qed

lemmas engine_simps = execute_plan_def load_required_models_def load_model_def
  use_case_type_def dict_get_def py_iter_def and_then_def execute_step_def step_body_def
  step_result_text_def use_tool_def process_vision_def process_speech_input_def
  process_speech_output_def process_embedding_def process_with_main_brain_def
  get_main_brain_response_def generate_final_response_def cleanup_models_def
  record_step_def plan_failed_def get_fallback_response_def py_str_def margin_def
  lookup_def dict_set_def

lemmas demo_simps = engine_simps demo_env_def unload_is_filter keep_or_default_def

lemma load_required_models_raises:
  "isl (load_required_models E loaded plan) = isl (load_required_models E [] plan)"
  by (auto simp: load_required_models_def and_then_def split: sum.splits)

lemma dict_get_Inr_obj: "dict_get x k d = Inr v \<Longrightarrow> is_obj x"
  by (cases x) (simp_all add: dict_get_def)

lemma generate_final_response_obj:
  "is_obj plan \<Longrightarrow> \<exists>t. generate_final_response E results ui plan = Inr t"
  by (cases plan) (simp_all add: generate_final_response_def dict_get_def and_then_def)

lemma cleanup_models_obj:
  "is_obj plan \<Longrightarrow> \<exists>l. cleanup_models E loaded plan = Inr l"
  by (cases plan) (simp_all add: cleanup_models_def dict_get_def and_then_def)

lemma plan_failed_fields [simp]:
  "success (plan_failed results e ui) = False"
  "steps_completed (plan_failed results e ui) = steps_completed results"
  by (simp_all add: plan_failed_def)

lemma execute_plan_steps:
  assumes "load_required_models E loaded plan = Inr (loaded1, models)"
    and "and_then (dict_get plan ''execution_steps'' (JArr [])) py_iter = Inr steps"
  shows "map Inr (steps_completed (fst (execute_plan E loaded plan ui uid)))
           = map (\<lambda>s. execute_step E s plan ui uid models) (takeWhile is_obj steps)"
    and "success (fst (execute_plan E loaded plan ui uid)) = list_all is_obj steps"
proof -
  let ?results1 = "\<lparr>plan_executed = plan, steps_completed = [], models_used = map fst models,
                     tools_used = [], response = [], success = True, error = None\<rparr>"
  let ?run = "run_steps E plan ui uid models steps ?results1"
  obtain results2 raised where run: "?run = (results2, raised)" by (cases ?run)
  have completed: "map Inr (steps_completed results2)
                     = map (\<lambda>s. execute_step E s plan ui uid models) (takeWhile is_obj steps)"
    using run_steps_completed [of E plan ui uid models steps ?results1] run by simp
  have raised: "raised = None \<longleftrightarrow> list_all is_obj steps"
    using run_steps_raises [of E plan ui uid models steps ?results1] run by simp
  have ok: "success results2"
    using run_steps_keeps(1) [of E plan ui uid models steps ?results1] run by simp
  from assms(2) obtain v where "dict_get plan ''execution_steps'' (JArr []) = Inr v"
    by (auto simp: and_then_def split: sum.splits)
  then have obj: "is_obj plan" by (rule dict_get_Inr_obj)
  from obj obtain t where t: "generate_final_response E results2 ui plan = Inr t"
    using generate_final_response_obj by blast
  from obj obtain l where l: "cleanup_models E loaded1 plan = Inr l"
    using cleanup_models_obj by blast
  show "map Inr (steps_completed (fst (execute_plan E loaded plan ui uid)))
           = map (\<lambda>s. execute_step E s plan ui uid models) (takeWhile is_obj steps)"
    using completed
    by (cases raised) (simp_all add: execute_plan_def assms run t l Let_def)
  show "success (fst (execute_plan E loaded plan ui uid)) = list_all is_obj steps"
    using raised ok
    by (cases raised) (simp_all add: execute_plan_def assms run t l Let_def)
qed

lemma execute_plan_not_iterable:
  assumes "load_required_models E loaded plan = Inr (loaded1, models)"
    and "and_then (dict_get plan ''execution_steps'' (JArr [])) py_iter = Inl e"
  shows "steps_completed (fst (execute_plan E loaded plan ui uid)) = []"
    and "\<not> success (fst (execute_plan E loaded plan ui uid))"
  by (simp_all add: execute_plan_def assms Let_def)

lemma execute_plan_not_loaded:
  assumes "load_required_models E loaded plan = Inl e"
  shows "steps_completed (fst (execute_plan E loaded plan ui uid)) = []"
    and "\<not> success (fst (execute_plan E loaded plan ui uid))"
  by (simp_all add: execute_plan_def assms Let_def)

lemma map_Inr_all_succeeded:
  assumes "map Inr rs = map (\<lambda>s. execute_step E s plan ui uid models) ss"
  shows "list_all step_succeeded rs"
  using assms
proof (induction rs arbitrary: ss)
  case Nil
  show ?case by simp
next
  case (Cons r rs)
  then obtain s ss' where ss: "ss = s # ss'" by (cases ss) auto
  with Cons.prems have "execute_step E s plan ui uid models = Inr r"
    and rest: "map Inr rs = map (\<lambda>s. execute_step E s plan ui uid models) ss'" by auto
  then have "step_succeeded r" using execute_step_result by blast
  with Cons.IH [OF rest] show ?case by simp
qed

lemma well_formed_steps:
  assumes "plan_well_formed E plan"
  shows "and_then (dict_get plan ''execution_steps'' (JArr [])) py_iter = Inr (plan_steps plan)"
    and "list_all is_obj (plan_steps plan)"
proof -
  from assms obtain steps where
    it: "and_then (dict_get plan ''execution_steps'' (JArr [])) py_iter = Inr steps"
    and objs: "list_all is_obj steps"
    by (auto simp: plan_well_formed_def split: sum.splits)
  from it obtain kv where plan: "plan = JObj kv"
    by (cases plan) (auto simp: dict_get_def and_then_def)
  have "steps = plan_steps plan"
  proof (cases "map_of kv ''execution_steps''")
    case None
    with it plan show ?thesis
      by (simp add: dict_get_def and_then_def py_iter_def plan_steps_def lookup_def)
  next
    case (Some v)
    show ?thesis
    proof (cases v)
      case (JArr xs)
      with it plan Some show ?thesis
        by (simp add: dict_get_def and_then_def py_iter_def plan_steps_def lookup_def)
    next
      case (JStr str)
      with it plan Some have "steps = map (\<lambda>c. JStr [c]) str"
        by (simp add: dict_get_def and_then_def py_iter_def)
      with objs have "str = []" by (cases str) auto
      with \<open>steps = map (\<lambda>c. JStr [c]) str\<close> plan Some JStr show ?thesis
        by (simp add: plan_steps_def lookup_def)
    next
      case (JObj members)
      with it plan Some have "steps = map (\<lambda>p. JStr (fst p)) members"
        by (simp add: dict_get_def and_then_def py_iter_def)
      with objs have "members = []" by (cases members) auto
      with \<open>steps = map (\<lambda>p. JStr (fst p)) members\<close> plan Some JObj show ?thesis
        by (simp add: plan_steps_def lookup_def)
    qed (use it plan Some in \<open>simp_all add: dict_get_def and_then_def py_iter_def\<close>)
  qed
  with it objs show "and_then (dict_get plan ''execution_steps'' (JArr [])) py_iter
                       = Inr (plan_steps plan)"
    and "list_all is_obj (plan_steps plan)" by simp_all
qed


lemma map_Inr_step_numbers:
  assumes "map Inr rs = map (\<lambda>s. execute_step E s plan ui uid models) ss"
  shows "map (\<lambda>r. case lookup r ''step_number'' of Some n \<Rightarrow> n | None \<Rightarrow> JNull) rs
           = map step_number_of ss"
  using assms
proof (induction rs arbitrary: ss)
  case Nil
  then show ?case by simp
next
  case (Cons r rs)
  then obtain s ss' where ss: "ss = s # ss'" by (cases ss) auto
  with Cons.prems have r: "execute_step E s plan ui uid models = Inr r"
    and rest: "map Inr rs = map (\<lambda>s. execute_step E s plan ui uid models) ss'" by auto
  from r have "lookup r ''step_number'' = Some (step_number_of s)"
    using execute_step_result by blast
  with Cons.IH [OF rest] ss show ?case by simp
qed

lemma execute_plan_listed:
  "map Inr (steps_completed (fst (execute_plan E loaded plan ui uid)))
     = map (\<lambda>s. execute_step E s plan ui uid (required_models_of E loaded plan))
           (takeWhile is_obj (listed_steps E plan))"
proof (cases "load_required_models E loaded plan")
  case (Inl e)
  then have "isl (load_required_models E [] plan)"
    using load_required_models_raises [of E loaded plan] by simp
  then have "listed_steps E plan = []"
    by (auto simp: listed_steps_def split: sum.splits)
  with execute_plan_not_loaded(1) [OF Inl] show ?thesis by simp
next
  case (Inr lm)
  obtain loaded1 models where lm: "lm = (loaded1, models)" by (cases lm)
  have load: "load_required_models E loaded plan = Inr (loaded1, models)"
    using Inr lm by simp
  then have models: "required_models_of E loaded plan = models"
    by (simp add: required_models_of_def)
  have "\<not> isl (load_required_models E [] plan)"
    using load_required_models_raises [of E loaded plan] load by simp
  then obtain lm0 where load0: "load_required_models E [] plan = Inr lm0"
    by (cases "load_required_models E [] plan") auto
  show ?thesis
  proof (cases "and_then (dict_get plan ''execution_steps'' (JArr [])) py_iter")
    case (Inl e)
    then have "listed_steps E plan = []"
      by (simp add: listed_steps_def load0)
    with execute_plan_not_iterable(1) [OF load Inl] show ?thesis by simp
  next
    case (Inr steps)
    then have "listed_steps E plan = steps"
      by (simp add: listed_steps_def load0)
    with execute_plan_steps(1) [OF load Inr] models show ?thesis by simp
  qed
qed

lemma well_formed_listed:
  assumes "plan_well_formed E plan"
  shows "takeWhile is_obj (listed_steps E plan) = plan_steps plan"
proof -
  from assms have "\<not> isl (load_required_models E [] plan)"
    by (auto simp: plan_well_formed_def split: sum.splits)
  then obtain lm0 where load0: "load_required_models E [] plan = Inr lm0"
    by (cases "load_required_models E [] plan") auto
  have "listed_steps E plan = plan_steps plan"
    by (simp add: listed_steps_def load0 well_formed_steps(1) [OF assms])
  with well_formed_steps(2) [OF assms] show ?thesis
    by (simp add: list_all_iff)
qed



lemma broken_plan_received:
  "parse_execution_plan json_loads
     ''{\"intent\":\"greet\",\"execution_steps\":[{\"step\":1,\"action\":\"say hello\",\"capability\":\"vision\"},7]}''
     = broken_plan"
proof -
  have "re_search_braces
     ''{\"intent\":\"greet\",\"execution_steps\":[{\"step\":1,\"action\":\"say hello\",\"capability\":\"vision\"},7]}''
     = Some ''{\"intent\":\"greet\",\"execution_steps\":[{\"step\":1,\"action\":\"say hello\",\"capability\":\"vision\"},7]}''"
    by (simp add: re_search_braces_def)
  moreover have "json_loads
     ''{\"intent\":\"greet\",\"execution_steps\":[{\"step\":1,\"action\":\"say hello\",\"capability\":\"vision\"},7]}''
     = Some broken_plan"
    by (simp add: decoder_simps broken_plan_def)
  ultimately show ?thesis by (simp only: parse_execution_plan_def option.case)
qed

lemma vision_plan_well_formed: "plan_well_formed demo_env vision_plan"
  by (simp add: plan_well_formed_def demo_simps vision_plan_def)

text \<open>
  C2, as stated, fails. In the specification's scenario the vision model cannot be loaded,
  so no model is passed to the step; the step is recorded with \<^verbatim>\<open>success = True\<close>, the
  result text "Vision capability not available" and no \<^verbatim>\<open>error\<close> entry, and the overall
  flag stays true. (Execution does continue.)
\<close>

theorem unavailable_vision_step_succeeds:
  "required_models_of demo_env [(''deepseek-r1'', Model ''text'')] vision_plan = []
   \<and> steps_completed (fst (execute_plan demo_env [(''deepseek-r1'', Model ''text'')] vision_plan
        ''Describe this image'' ''default''))
       = [JObj [(''step_number'', JInt 1), (''action'', JStr ''describe image''),
                (''capability'', JStr ''vision''), (''success'', JBool True),
                (''result'', JStr ''Vision capability not available''),
                (''tool_used'', JNull)]]
   \<and> success (fst (execute_plan demo_env [(''deepseek-r1'', Model ''text'')] vision_plan
        ''Describe this image'' ''default''))"
  by (simp add: demo_simps vision_plan_def required_models_of_def)

text \<open>
  C2, amended. For every step without a tool whose capability is vision, speech\_input,
  speech\_output or embedding and for which no model was loaded, the recorded result has
  \<^verbatim>\<open>success = True\<close>, the result text "... capability not available" of that capability
  and no \<^verbatim>\<open>error\<close> entry, and the loop goes on with the remaining steps.
\<close>

theorem unavailable_capability_recorded:
  assumes "step = JObj kv"
    and "\<not> truthy (case map_of kv ''tool'' of Some t \<Rightarrow> t | None \<Rightarrow> JNull)"
    and "map_of kv ''capability'' = Some (JStr capability)"
    and "(capability, message) \<in> set [
           (''vision'', ''Vision capability not available''),
           (''speech_input'', ''Speech input capability not available''),
           (''speech_output'', ''Speech output capability not available''),
           (''embedding'', ''Embedding capability not available'')]"
    and "map_of models capability = None"
  shows "\<exists>r. execute_step E step plan ui uid models = Inr r
           \<and> lookup r ''success'' = Some (JBool True)
           \<and> lookup r ''result'' = Some (JStr message)
           \<and> lookup r ''error'' = None
           \<and> run_steps E plan ui uid models (step # rest) results
               = run_steps E plan ui uid models rest (record_step r results)"
proof -
  let ?tool = "case map_of kv ''tool'' of Some t \<Rightarrow> t | None \<Rightarrow> JNull"
  let ?action = "case map_of kv ''action'' of Some v \<Rightarrow> v | None \<Rightarrow> JStr []"
  from assms(4) have
    "(capability = ''vision'' \<and> message = ''Vision capability not available'')
     \<or> (capability = ''speech_input'' \<and> message = ''Speech input capability not available'')
     \<or> (capability = ''speech_output'' \<and> message = ''Speech output capability not available'')
     \<or> (capability = ''embedding'' \<and> message = ''Embedding capability not available'')"
    by (simp only: list.set insert_iff empty_iff prod.inject simp_thms)
  then have result_text:
    "step_result_text E ?tool (JStr capability) ?action plan ui models = message"
  proof (elim disjE conjE)
    assume "capability = ''vision''" "message = ''Vision capability not available''"
    with assms(2,5) show ?thesis
      by (simp add: step_result_text_def process_vision_def)
  next
    assume "capability = ''speech_input''" "message = ''Speech input capability not available''"
    with assms(2,5) show ?thesis
      by (simp add: step_result_text_def process_speech_input_def)
  next
    assume "capability = ''speech_output''" "message = ''Speech output capability not available''"
    with assms(2,5) show ?thesis
      by (simp add: step_result_text_def process_speech_output_def)
  next
    assume "capability = ''embedding''" "message = ''Embedding capability not available''"
    with assms(2,5) show ?thesis
      by (simp add: step_result_text_def process_embedding_def)
  qed
  have r: "execute_step E step plan ui uid models = Inr (JObj [
       (''step_number'', step_number_of (JObj kv)),
       (''action'', ?action),
       (''capability'', JStr capability),
       (''success'', JBool True),
       (''result'', JStr message),
       (''tool_used'', ?tool)])"
    unfolding assms(1) execute_step_obj step_body_obj
    by (simp only: assms(3) option.case result_text)
  show ?thesis
    unfolding run_steps.simps r by (simp add: lookup_def)
qed

theorem unavailable_capability_recorded_witness:
  "\<exists>r. execute_step demo_env
          (JObj [(''step'', JInt 1), (''action'', JStr ''describe image''),
                 (''capability'', JStr ''vision''), (''depends_on'', JArr [])])
          vision_plan ''Describe this image'' ''default'' [] = Inr r
       \<and> lookup r ''success'' = Some (JBool True)
       \<and> lookup r ''result'' = Some (JStr ''Vision capability not available'')
       \<and> lookup r ''error'' = None"
proof -
  let ?kv = "[(''step'', JInt 1), (''action'', JStr ''describe image''),
              (''capability'', JStr ''vision''), (''depends_on'', JArr [])]"
  have 2: "\<not> truthy (case map_of ?kv ''tool'' of Some t \<Rightarrow> t | None \<Rightarrow> JNull)" by simp
  have 3: "map_of ?kv ''capability'' = Some (JStr ''vision'')" by simp
  have 4: "(''vision'', ''Vision capability not available'') \<in> set [
           (''vision'', ''Vision capability not available''),
           (''speech_input'', ''Speech input capability not available''),
           (''speech_output'', ''Speech output capability not available''),
           (''embedding'', ''Embedding capability not available'')]" by simp
  have 5: "map_of ([] :: (string \<times> model) list) ''vision'' = None" by simp
  from unavailable_capability_recorded [OF refl 2 3 4 5,
      of demo_env vision_plan "''Describe this image''" "''default''"]
  show ?thesis by blast
qed

text \<open>
  C3, as stated, fails. A decoded plan whose second step is not an object makes
  \<^verbatim>\<open>execute_step\<close> raise: the overall flag is false, although the one recorded result has
  \<^verbatim>\<open>success = True\<close>.
\<close>

theorem failed_record_with_successful_steps:
  "parse_execution_plan json_loads
     ''{\"intent\":\"greet\",\"execution_steps\":[{\"step\":1,\"action\":\"say hello\",\"capability\":\"vision\"},7]}''
     = broken_plan
   \<and> \<not> success (fst (execute_plan demo_env [] broken_plan ''hello'' ''default''))
   \<and> steps_completed (fst (execute_plan demo_env [] broken_plan ''hello'' ''default''))
       = [JObj [(''step_number'', JInt 1), (''action'', JStr ''say hello''),
                (''capability'', JStr ''vision''), (''success'', JBool True),
                (''result'', JStr ''Vision capability not available''),
                (''tool_used'', JNull)]]
   \<and> list_all step_succeeded
         (steps_completed (fst (execute_plan demo_env [] broken_plan ''hello'' ''default'')))"
proof -
  have run: "steps_completed (fst (execute_plan demo_env [] broken_plan ''hello'' ''default''))
       = [JObj [(''step_number'', JInt 1), (''action'', JStr ''say hello''),
                (''capability'', JStr ''vision''), (''success'', JBool True),
                (''result'', JStr ''Vision capability not available''),
                (''tool_used'', JNull)]]"
    by (simp add: demo_simps broken_plan_def)
  have flag: "\<not> success (fst (execute_plan demo_env [] broken_plan ''hello'' ''default''))"
    by (simp add: demo_simps broken_plan_def)
  have "list_all step_succeeded
         (steps_completed (fst (execute_plan demo_env [] broken_plan ''hello'' ''default'')))"
    unfolding run by (simp add: step_succeeded_def lookup_def)
  with run flag broken_plan_received show ?thesis by (intro conjI)
qed

text \<open>
  C3, amended. The overall success flag is true exactly when no exception reaches the
  handler of \<^verbatim>\<open>execute_plan\<close>, that is when the plan is well formed: loading the models
  does not raise, \<^verbatim>\<open>execution_steps\<close> can be iterated and every step is an object. Every
  recorded result has \<^verbatim>\<open>success = True\<close>, whatever the overall flag: so an overall
  success means that every recorded result succeeded, but not the other way round.
\<close>

theorem success_iff_no_exception:
  "success (fst (execute_plan E loaded plan ui uid)) = plan_well_formed E plan
   \<and> list_all step_succeeded (steps_completed (fst (execute_plan E loaded plan ui uid)))"
proof (cases "load_required_models E loaded plan")
  case (Inl e)
  then have "isl (load_required_models E [] plan)"
    using load_required_models_raises [of E loaded plan] by simp
  then have "\<not> plan_well_formed E plan"
    by (auto simp: plan_well_formed_def split: sum.splits)
  with execute_plan_not_loaded [OF Inl] show ?thesis by simp
next
  case (Inr lm)
  obtain loaded1 models where lm: "lm = (loaded1, models)" by (cases lm)
  have load: "load_required_models E loaded plan = Inr (loaded1, models)"
    using Inr lm by simp
  have "\<not> isl (load_required_models E [] plan)"
    using load_required_models_raises [of E loaded plan] load by simp
  then obtain lm0 where load0: "load_required_models E [] plan = Inr lm0"
    by (cases "load_required_models E [] plan") auto
  show ?thesis
  proof (cases "and_then (dict_get plan ''execution_steps'' (JArr [])) py_iter")
    case (Inl e)
    then have "\<not> plan_well_formed E plan"
      by (simp add: plan_well_formed_def load0)
    with execute_plan_not_iterable [OF load Inl] show ?thesis by simp
  next
    case (Inr steps)
    have wf: "plan_well_formed E plan = list_all is_obj steps"
      by (simp add: plan_well_formed_def load0 Inr)
    from execute_plan_steps [OF load Inr] wf map_Inr_all_succeeded
    show ?thesis by metis
  qed
qed

theorem success_iff_no_exception_witness:
  "plan_well_formed demo_env vision_plan
   \<and> success (fst (execute_plan demo_env [(''deepseek-r1'', Model ''text'')] vision_plan
        ''Describe this image'' ''default''))
   \<and> \<not> plan_well_formed demo_env broken_plan
   \<and> \<not> success (fst (execute_plan demo_env [] broken_plan ''hello'' ''default''))"
proof -
  have 1: "plan_well_formed demo_env vision_plan" by (rule vision_plan_well_formed)
  have 2: "\<not> plan_well_formed demo_env broken_plan"
    by (simp add: plan_well_formed_def demo_simps broken_plan_def)
  from 1 2
    success_iff_no_exception [of demo_env "[(''deepseek-r1'', Model ''text'')]" vision_plan
      "''Describe this image''" "''default''"]
    success_iff_no_exception [of demo_env "[]" broken_plan "''hello''" "''default''"]
  show ?thesis by blast
qed

text \<open>
  C4, as stated, fails. Step 1 depends on step 2 and is listed first: it is executed
  first, before the step it depends on.
\<close>

theorem steps_not_in_dependency_order:
  "visited_ids (fst (execute_plan demo_env [] unordered_plan ''report'' ''default''))
     = [JInt 1, JInt 2]
   \<and> map step_number_of (plan_steps unordered_plan) = [JInt 1, JInt 2]
   \<and> step_deps (plan_steps unordered_plan ! 0) = [JInt 2]
   \<and> \<not> deps_visited_first [] (plan_steps unordered_plan)"
proof -
  have 1: "visited_ids (fst (execute_plan demo_env [] unordered_plan ''report'' ''default''))
     = [JInt 1, JInt 2]"
    by (simp add: demo_simps unordered_plan_def visited_ids_def)
  have 2: "plan_steps unordered_plan = [
              JObj [(''step'', JInt 1), (''action'', JStr ''summarise''),
                    (''capability'', JStr ''embedding''), (''depends_on'', JArr [JInt 2])],
              JObj [(''step'', JInt 2), (''action'', JStr ''fetch''),
                    (''capability'', JStr ''vision''), (''depends_on'', JArr [])]]"
    by (simp add: unordered_plan_def plan_steps_def lookup_def)
  show ?thesis
    unfolding 1 2 by (simp add: step_number_of_def step_deps_def lookup_def)
qed

text \<open>
  C4, amended. For every plan, \<^verbatim>\<open>execute_plan\<close> visits the entries of
  \<^verbatim>\<open>execution_steps\<close> in the order in which they are listed, with no reordering by
  \<^verbatim>\<open>depends_on\<close> or by step id: the recorded results are, one by one, the results of the
  listed entries up to the first entry that is not an object, which raises and ends the
  loop. No step is visited when an exception comes before the loop
  (\<^verbatim>\<open>load_required_models\<close> raises, or \<^verbatim>\<open>execution_steps\<close> cannot be iterated). When
  no exception occurs at all, every listed step is visited, in the listed order.
\<close>

theorem steps_visited_in_listed_order:
  "map Inr (steps_completed (fst (execute_plan E loaded plan ui uid)))
     = map (\<lambda>s. execute_step E s plan ui uid (required_models_of E loaded plan))
           (takeWhile is_obj (listed_steps E plan))
   \<and> visited_ids (fst (execute_plan E loaded plan ui uid))
       = map step_number_of (takeWhile is_obj (listed_steps E plan))
   \<and> (plan_well_formed E plan
       \<longrightarrow> visited_ids (fst (execute_plan E loaded plan ui uid))
             = map step_number_of (plan_steps plan))"
proof -
  have results: "map Inr (steps_completed (fst (execute_plan E loaded plan ui uid)))
     = map (\<lambda>s. execute_step E s plan ui uid (required_models_of E loaded plan))
           (takeWhile is_obj (listed_steps E plan))"
    by (rule execute_plan_listed)
  then have ids: "visited_ids (fst (execute_plan E loaded plan ui uid))
       = map step_number_of (takeWhile is_obj (listed_steps E plan))"
    unfolding visited_ids_def by (rule map_Inr_step_numbers)
  from results ids well_formed_listed [of E plan] show ?thesis by simp
qed

theorem steps_visited_in_listed_order_witness:
  "visited_ids (fst (execute_plan demo_env [] unordered_plan ''report'' ''default''))
     = [JInt 1, JInt 2]
   \<and> visited_ids (fst (execute_plan demo_env [] broken_plan ''hello'' ''default''))
     = [JInt 1]
   \<and> visited_ids (fst (execute_plan demo_env [] unloadable_plan ''report'' ''default''))
     = []"
proof -
  have 1: "map step_number_of (takeWhile is_obj (listed_steps demo_env unordered_plan))
             = [JInt 1, JInt 2]"
    by (simp add: listed_steps_def demo_simps unordered_plan_def step_number_of_def)
  have 2: "map step_number_of (takeWhile is_obj (listed_steps demo_env broken_plan))
             = [JInt 1]"
    by (simp add: listed_steps_def demo_simps broken_plan_def step_number_of_def)
  have 3: "map step_number_of (takeWhile is_obj (listed_steps demo_env unloadable_plan)) = []"
    by (simp add: listed_steps_def demo_simps unloadable_plan_def step_number_of_def)
  from 1 2 3
    steps_visited_in_listed_order [of demo_env "[]" unordered_plan "''report''" "''default''"]
    steps_visited_in_listed_order [of demo_env "[]" broken_plan "''hello''" "''default''"]
    steps_visited_in_listed_order [of demo_env "[]" unloadable_plan "''report''" "''default''"]
  show ?thesis by simp
qed




end
